theory Spec2Isabelle
  imports Main "HOL-Library.Word"
begin

section \<open>The RPC gateway of the daemon (src/rpc/RpcServer.cpp)\<close>

text \<open>
  A shallow embedding of \<^verbatim>\<open>RpcServer\<close>: the middleware every routed request passes
  through, \<^verbatim>\<open>failRequest\<close>, and the handlers \<^verbatim>\<open>info\<close>, \<^verbatim>\<open>sendTransaction\<close> and
  \<^verbatim>\<open>getRandomOuts\<close>.  The response, the state of the collaborators (blockchain core,
  peer-to-peer server, synchronisation manager) and the trace of logged messages and of
  calls that change or sample the collaborators are passed explicitly.  Exceptions are
  values.  The machine integers of the source are words of the same width.
\<close>

subsection \<open>Machine integers and bytes\<close>

type_synonym uint8_t = "8 word"
type_synonym uint16_t = "16 word"
type_synonym uint32_t = "32 word"
type_synonym uint64_t = "64 word"
type_synonym bytes = "uint8_t list"

subsection \<open>Permission levels\<close>

text \<open>
  Modelled from the spec: the enumeration \<^verbatim>\<open>RpcMode\<close> is declared in rpc/RpcServer.h, which
  is not among the sources.  The specification gives its three levels in ascending order;
  the middleware compares two levels with \<^verbatim>\<open>>\<close> on their enumeration values.
\<close>

datatype RpcMode = Default | BlockExplorerEnabled | AllMethodsEnabled

fun rpcModeValue :: "RpcMode \<Rightarrow> nat" where
  "rpcModeValue Default = 0"
| "rpcModeValue BlockExplorerEnabled = 1"
| "rpcModeValue AllMethodsEnabled = 2"

subsection \<open>Errors\<close>

text \<open>
  Modelled from the spec: the class \<^verbatim>\<open>Error\<close> and the enumeration \<^verbatim>\<open>ErrorCode\<close> are declared
  in errors/Errors.h, which is not among the sources.  A result carries a code and a
  message; \<^verbatim>\<open>SUCCESS\<close> is the code of the success sentinel and a result is an error exactly
  when its code is not \<^verbatim>\<open>SUCCESS\<close>.  The handlers name two enumerators, \<^verbatim>\<open>SUCCESS\<close> and
  \<^verbatim>\<open>CANT_GET_FAKE_OUTPUTS\<close>; the remaining ones are kept by number.  A result built from a
  code alone, as in \<^verbatim>\<open>{SUCCESS, 200}\<close>, has the empty message.
\<close>

datatype ErrorCode = SUCCESS | CANT_GET_FAKE_OUTPUTS | OTHER_ERROR nat

record Error =
  getErrorCode :: ErrorCode
  getErrorMessage :: string

definition Error :: "ErrorCode \<Rightarrow> string \<Rightarrow> Error" where
  "Error code customMessage = \<lparr>getErrorCode = code, getErrorMessage = customMessage\<rparr>"

definition isError :: "Error \<Rightarrow> bool" where
  "isError error = (getErrorCode error \<noteq> SUCCESS)"

text \<open>
  The two tiers of exception the middleware tells apart: \<^verbatim>\<open>std::invalid_argument\<close> and any other
  \<^verbatim>\<open>std::exception\<close>, each with its \<^verbatim>\<open>what()\<close>.
\<close>

datatype Exn = InvalidArgument string | OtherException string

datatype 'a outcome = Returned 'a | Threw Exn

subsection \<open>The JSON writer and the HTTP response\<close>

text \<open>
  A \<^verbatim>\<open>rapidjson::Writer\<close> over a string buffer is represented by the sequence of the calls made
  on it, in order; the text of the buffer is a function of that sequence.
\<close>

datatype JsonEvent =
    StartObject
  | EndObject
  | StartArray
  | EndArray
  | Key string
  | String string
  | Uint nat
  | Uint64 uint64_t
  | Bool bool

text \<open>The member \<^verbatim>\<open>method\<close> of \<^verbatim>\<open>httplib::Request\<close> is the field \<^verbatim>\<open>http_method\<close>.\<close>

record Request =
  http_method :: string
  path :: string
  body :: string

text \<open>
  \<^verbatim>\<open>httplib::Response\<close>: \<^verbatim>\<open>status\<close> is an \<^verbatim>\<open>int\<close>, the headers are a multimap, and the
  member \<^verbatim>\<open>body\<close>, which \<^verbatim>\<open>set_content\<close> assigns, is the field \<^verbatim>\<open>content\<close>.  Every body the
  modelled functions set is the buffer of a JSON writer.
\<close>

record Response =
  status :: int
  content :: "JsonEvent list"
  headers :: "(string \<times> string) list"

definition set_header :: "string \<Rightarrow> string \<Rightarrow> Response \<Rightarrow> Response" where
  "set_header key val res = res\<lparr>headers := headers res @ [(key, val)]\<rparr>"

definition set_content :: "JsonEvent list \<Rightarrow> string \<Rightarrow> Response \<Rightarrow> Response" where
  "set_content s content_type res = set_header ''Content-Type'' content_type (res\<lparr>content := s\<rparr>)"

subsection \<open>Logging and the trace of collaborator calls\<close>

datatype LogLevel = FATAL | INFO | DEBUG

datatype LogCategory = DAEMON_RPC

datatype Event =
    Log string LogLevel "LogCategory list"
  | AddTransactionToPool bytes
  | RelayTransactions "bytes list"
  | GetRandomOutputs uint64_t uint16_t

record 'w RpcState =
  response :: Response
  world :: 'w
  events :: "Event list"

definition log :: "string \<Rightarrow> LogLevel \<Rightarrow> LogCategory list \<Rightarrow> 'w RpcState \<Rightarrow> 'w RpcState" where
  "log message level categories st = st\<lparr>events := events st @ [Log message level categories]\<rparr>"

subsection \<open>Collaborators\<close>

text \<open>
  The blockchain core, the peer-to-peer server and the synchronisation manager are used
  through their operations only.  Their joint state has type \<^typ>\<open>'w\<close>; a read is a function
  of it, an operation that changes it (or samples at random from it) returns the new state.
  The widths are those of the variables the source stores the results in;
  \<^verbatim>\<open>std::max(1u, \<dots>)\<close> fixes the two heights of the synchronisation manager at 32 bits, and
  the top block index is a 32-bit block index as well.
\<close>

record BlockDetails =
  majorVersion :: uint8_t
  minorVersion :: uint8_t

record 'w Core =
  getTopBlockIndex :: "'w \<Rightarrow> uint32_t"
  getBlockDetails :: "'w \<Rightarrow> uint32_t \<Rightarrow> BlockDetails"
  getDifficultyForNextBlock :: "'w \<Rightarrow> uint64_t"
  getBlockchainTransactionCount :: "'w \<Rightarrow> uint64_t"
  getPoolTransactionCount :: "'w \<Rightarrow> uint64_t"
  getAlternativeBlockCount :: "'w \<Rightarrow> uint64_t"
  getStartTime :: "'w \<Rightarrow> uint64_t"
  addTransactionToPool :: "'w \<Rightarrow> bytes \<Rightarrow> (bool \<times> string) \<times> 'w"
  getRandomOutputs ::
    "'w \<Rightarrow> uint64_t \<Rightarrow> uint16_t \<Rightarrow> (bool \<times> string \<times> uint32_t list \<times> bytes list) \<times> 'w"

record 'w NodeServer =
  get_connections_count :: "'w \<Rightarrow> uint64_t"
  get_outgoing_connections_count :: "'w \<Rightarrow> uint64_t"
  get_white_peers_count :: "'w \<Rightarrow> uint64_t"
  get_gray_peers_count :: "'w \<Rightarrow> uint64_t"

record 'w ProtocolHandler =
  getBlockchainHeight :: "'w \<Rightarrow> uint32_t"
  getObservedHeight :: "'w \<Rightarrow> uint32_t"
  relayTransactions :: "'w \<Rightarrow> bytes list \<Rightarrow> 'w"

text \<open>The members of \<^verbatim>\<open>RpcServer\<close> the modelled functions read.\<close>

record 'w RpcServer =
  m_corsHeader :: string
  m_feeAddress :: string
  m_feeAmount :: uint64_t
  m_rpcMode :: RpcMode
  m_core :: "'w Core"
  m_p2p :: "'w NodeServer"
  m_syncManager :: "'w ProtocolHandler"

subsection \<open>Library functions and configuration constants\<close>

text \<open>
  Functions and constants the source uses and does not define are parameters: the JSON
  parser and the accessors of a parsed document (type \<^typ>\<open>'j\<close>), the hex codec, the hash
  and its printing on a stream, the formatting of an amount, the numbering of the error
  codes, and the constants of the configuration header.  \<^verbatim>\<open>parseJson\<close> returns \<^verbatim>\<open>None\<close> where
  \<^verbatim>\<open>HasParseError()\<close> holds; an accessor returns the exception it throws on the left;
  \<^verbatim>\<open>nullDocument\<close> is the document as it is constructed.
\<close>

record 'j Externals =
  parseJson :: "string \<Rightarrow> 'j option"
  nullDocument :: 'j
  getStringFromJSON :: "'j \<Rightarrow> string \<Rightarrow> Exn + string"
  getUint64FromJSON :: "'j \<Rightarrow> string \<Rightarrow> Exn + uint64_t"
  getArrayFromJSON :: "'j \<Rightarrow> string \<Rightarrow> Exn + 'j list"
  GetUint64 :: "'j \<Rightarrow> uint64_t"
  fromHex :: "string \<Rightarrow> bytes option"
  cn_fast_hash :: "bytes \<Rightarrow> bytes"
  podToHex :: "bytes \<Rightarrow> string"
  printHash :: "bytes \<Rightarrow> string"
  formatAmount :: "uint64_t \<Rightarrow> string"
  errorCodeValue :: "ErrorCode \<Rightarrow> nat"
  FORK_HEIGHTS :: "uint64_t list"
  CURRENT_FORK_INDEX :: nat
  DIFFICULTY_TARGET :: uint64_t
  PROJECT_VERSION :: string

subsection \<open>Printing numbers\<close>

text \<open>
  \<^verbatim>\<open>operator<<\<close> of a stream on an unsigned integer writes its decimal digits.  \<^verbatim>\<open>endl\<close> is
  the line feed, which \<^verbatim>\<open>std::endl\<close> writes and which the string literals of the source
  contain as an escape.
\<close>

definition digitChar :: "nat \<Rightarrow> char" where
  "digitChar d = ''0123456789'' ! d"

fun showNat :: "nat \<Rightarrow> string" where
  "showNat n = (if n < 10 then [digitChar n] else showNat (n div 10) @ [digitChar (n mod 10)])"

declare showNat.simps [simp del]

definition endl :: string where
  "endl = [CHR 0x0A]"

subsection \<open>\<^verbatim>\<open>failRequest\<close>\<close>

definition failRequest :: "uint16_t \<Rightarrow> string \<Rightarrow> Response \<Rightarrow> Response" where
  "failRequest port message res =
     (set_content
        [StartObject, Key ''status'', String ''Failed'', Key ''error'', String message, EndObject]
        ''application/json'' res)\<lparr>status := uint port\<rparr>"

subsection \<open>\<^verbatim>\<open>middleware\<close>\<close>

type_synonym ('j, 'w) handler =
  "Request \<Rightarrow> 'j \<Rightarrow> 'w RpcState \<Rightarrow> (Error \<times> uint16_t) outcome \<times> 'w RpcState"

text \<open>Lines 130 to 139: the debug log of the request and the CORS header.\<close>

definition preamble :: "'w RpcServer \<Rightarrow> Request \<Rightarrow> 'w RpcState \<Rightarrow> 'w RpcState" where
  "preamble srv req st0 =
     (let st1 = log (''Incoming '' @ http_method req @ '' request: '' @ path req) DEBUG [DAEMON_RPC] st0
      in if m_corsHeader srv \<noteq> ''''
         then st1\<lparr>response := set_header ''Access-Control-Allow-Origin'' (m_corsHeader srv) (response st1)\<rparr>
         else st1)"

text \<open>
  Line 141: the body is parsed only when the route requires one; otherwise the document
  stays as it was constructed.
\<close>

definition parseBody :: "'j Externals \<Rightarrow> Request \<Rightarrow> bool \<Rightarrow> 'j option" where
  "parseBody ext req bodyRequired =
     (if bodyRequired then parseJson ext (body req) else Some (nullDocument ext))"

text \<open>Lines 143 to 162: one stream takes the logged warning and then the error message.\<close>

definition parseFailure :: "Request \<Rightarrow> 'w RpcState \<Rightarrow> 'w RpcState" where
  "parseFailure req st =
     (let stream0 = '''';
          (stream1, st1) =
            (if body req \<noteq> ''''
             then (let s = stream0 @ ''Warning: received body is not JSON encoded!'' @ endl
                             @ ''Key/value parameters are NOT supported.'' @ endl
                             @ ''Body:'' @ endl @ body req
                   in (s, log s INFO [DAEMON_RPC] st))
             else (stream0, st));
          stream2 = stream1 @ ''Failed to parse request body as JSON''
      in st1\<lparr>response := failRequest 400 stream2 (response st1)\<rparr>)"

text \<open>Lines 167 to 183.\<close>

definition permissionFailure :: "RpcMode \<Rightarrow> 'w RpcState \<Rightarrow> 'w RpcState" where
  "permissionFailure routePermissions st =
     (let stream0 = ''You do not have permission to access this method. Please ''
                    @ ''relaunch your daemon with the --enable-blockexplorer'';
          stream1 = (if routePermissions = AllMethodsEnabled then stream0 @ ''-detailed'' else stream0);
          stream2 = stream1 @ '' command line option to access this method.''
      in st\<lparr>response := failRequest 403 stream2 (response st)\<rparr>)"

text \<open>Lines 186 to 234: the call of the handler inside \<^verbatim>\<open>try\<close>, and the two \<^verbatim>\<open>catch\<close> clauses.\<close>

definition invokeHandler ::
  "'j Externals \<Rightarrow> ('j, 'w) handler \<Rightarrow> Request \<Rightarrow> 'j \<Rightarrow> 'w RpcState \<Rightarrow> 'w RpcState" where
  "invokeHandler ext handler req jsonBody st =
     (case handler req jsonBody st of
        (Returned (error, statusCode), st1) \<Rightarrow>
          (if isError error
           then st1\<lparr>response := (set_content
                              [StartObject,
                               Key ''errorCode'', Uint (errorCodeValue ext (getErrorCode error)),
                               Key ''errorMessage'', String (getErrorMessage error),
                               EndObject]
                              ''application/json'' (response st1))\<lparr>status := 400\<rparr>\<rparr>
           else st1\<lparr>response := (response st1)\<lparr>status := uint statusCode\<rparr>\<rparr>)
      | (Threw (InvalidArgument what), st1) \<Rightarrow>
          (let st2 = log (''Caught JSON exception, likely missing required json parameter: '' @ what)
                       FATAL [DAEMON_RPC] st1
           in st2\<lparr>response := failRequest 400 what (response st2)\<rparr>)
      | (Threw (OtherException what), st1) \<Rightarrow>
          (let st2 = log (''Caught unexpected exception: '' @ what) FATAL [DAEMON_RPC] st1
           in st2\<lparr>response := failRequest 500 (''Internal server error: '' @ what) (response st2)\<rparr>))"

definition middleware ::
  "'j Externals \<Rightarrow> 'w RpcServer \<Rightarrow> Request \<Rightarrow> RpcMode \<Rightarrow> bool \<Rightarrow> ('j, 'w) handler
     \<Rightarrow> 'w RpcState \<Rightarrow> 'w RpcState" where
  "middleware ext srv req routePermissions bodyRequired handler st0 =
     (let st = preamble srv req st0
      in case parseBody ext req bodyRequired of
           None \<Rightarrow> parseFailure req st
         | Some jsonBody \<Rightarrow>
             if rpcModeValue routePermissions > rpcModeValue (m_rpcMode srv)
             then permissionFailure routePermissions st
             else invokeHandler ext handler req jsonBody st)"

subsection \<open>The handler \<^verbatim>\<open>info\<close>\<close>

text \<open>
  Line 357 passes the integer quotient to \<^verbatim>\<open>round\<close>, a function on \<^verbatim>\<open>double\<close>, and the result
  to \<^verbatim>\<open>Uint64\<close>.  The conversion of a 64-bit unsigned integer to \<^verbatim>\<open>double\<close> gives the nearest
  value with a 53-bit significand, ties to the even significand; \<^verbatim>\<open>round\<close> leaves an integral
  value as it is.  \<^verbatim>\<open>nearestDouble\<close> is that value, as a natural number.  The conversion back
  to 64 bits is exact below \<^verbatim>\<open>2^64\<close>; a quotient within \<^verbatim>\<open>2^10\<close> of \<^verbatim>\<open>2^64\<close> rounds to \<^verbatim>\<open>2^64\<close>
  itself, where C++ leaves the conversion undefined and \<^verbatim>\<open>roundToUint64\<close> wraps.  The
  division is the unsigned integer division of the source; the target block time is a
  non-zero constant of the configuration.
\<close>

fun bitlen :: "nat \<Rightarrow> nat" where
  "bitlen n = (if n = 0 then 0 else Suc (bitlen (n div 2)))"

declare bitlen.simps [simp del]

definition nearestDouble :: "nat \<Rightarrow> nat" where
  "nearestDouble n =
     (if n < 2 ^ 53 then n
      else (let e = bitlen n - 53; q = n div 2 ^ e; r = n mod 2 ^ e; h = 2 ^ (e - 1)
            in if r < h \<or> (r = h \<and> even q) then q * 2 ^ e else (q + 1) * 2 ^ e))"

definition roundToUint64 :: "uint64_t \<Rightarrow> uint64_t" where
  "roundToUint64 x = of_nat (nearestDouble (unat x))"

definition info :: "'j Externals \<Rightarrow> 'w RpcServer \<Rightarrow> ('j, 'w) handler" where
  "info ext srv req jsonBody st =
     (let w = world st;
          height = (ucast (getTopBlockIndex (m_core srv) w + 1) :: uint64_t);
          networkHeight = (ucast (max 1 (getBlockchainHeight (m_syncManager srv) w)) :: uint64_t);
          blockDetails = getBlockDetails (m_core srv) w (ucast (height - 1));
          difficulty = getDifficultyForNextBlock (m_core srv) w;
          total_conn = get_connections_count (m_p2p srv) w;
          outgoing_connections_count = get_outgoing_connections_count (m_p2p srv) w;
          writer =
            [StartObject,
             Key ''height'', Uint64 height,
             Key ''difficulty'', Uint64 difficulty,
             Key ''tx_count'', Uint64 (getBlockchainTransactionCount (m_core srv) w - height),
             Key ''tx_pool_size'', Uint64 (getPoolTransactionCount (m_core srv) w),
             Key ''alt_blocks_count'', Uint64 (getAlternativeBlockCount (m_core srv) w),
             Key ''outgoing_connections_count'', Uint64 outgoing_connections_count,
             Key ''incoming_connections_count'', Uint64 (total_conn - outgoing_connections_count),
             Key ''white_peerlist_size'', Uint64 (get_white_peers_count (m_p2p srv) w),
             Key ''grey_peerlist_size'', Uint64 (get_gray_peers_count (m_p2p srv) w),
             Key ''last_known_block_index'',
               Uint64 (ucast (max 1 (getObservedHeight (m_syncManager srv) w) - 1)),
             Key ''network_height'', Uint64 networkHeight,
             Key ''upgrade_heights'', StartArray]
            @ map Uint64 (FORK_HEIGHTS ext)
            @ [EndArray,
               Key ''supported_height'',
                 Uint64 (if length (FORK_HEIGHTS ext) = 0 then 0
                         else FORK_HEIGHTS ext ! CURRENT_FORK_INDEX ext),
               Key ''hashrate'', Uint64 (roundToUint64 (difficulty div DIFFICULTY_TARGET ext)),
               Key ''synced'', Bool (height = networkHeight),
               Key ''major_version'', Uint64 (ucast (majorVersion blockDetails)),
               Key ''minor_version'', Uint64 (ucast (minorVersion blockDetails)),
               Key ''version'', String (PROJECT_VERSION ext),
               Key ''status'', String ''OK'',
               Key ''start_time'', Uint64 (getStartTime (m_core srv) w),
               EndObject]
      in (Returned (Error SUCCESS '''', 200),
          st\<lparr>response := set_content writer ''application/json'' (response st)\<rparr>))"

subsection \<open>The handler \<^verbatim>\<open>sendTransaction\<close>\<close>

definition sendTransaction :: "'j Externals \<Rightarrow> 'w RpcServer \<Rightarrow> ('j, 'w) handler" where
  "sendTransaction ext srv req jsonBody st =
     (case getStringFromJSON ext jsonBody ''tx_as_hex'' of
        Inl e \<Rightarrow> (Threw e, st)
      | Inr rawData \<Rightarrow>
          (let writer0 = [StartObject];
               (writer, st') =
                 (case fromHex ext rawData of
                    None \<Rightarrow>
                      (writer0 @ [Key ''status'', String ''Failed'',
                                  Key ''error'', String ''Failed to parse transaction from hex buffer''],
                       st)
                  | Some transaction \<Rightarrow>
                      (let transactionHash = cn_fast_hash ext transaction;
                           writer1 = writer0 @ [Key ''transactionHash'', String (podToHex ext transactionHash)];
                           st1 = log (''Attempting to add transaction '' @ printHash ext transactionHash
                                        @ '' from /sendrawtransaction to pool'') DEBUG [DAEMON_RPC] st;
                           ((success, error), w1) =
                             addTransactionToPool (m_core srv) (world st1) transaction;
                           st2 = st1\<lparr>world := w1, events := events st1 @ [AddTransactionToPool transaction]\<rparr>
                       in if \<not> success
                          then (writer1 @ [Key ''status'', String ''Failed'', Key ''error'', String error],
                                log (''Failed to add transaction '' @ printHash ext transactionHash
                                       @ '' from /sendrawtransaction to pool: '' @ error)
                                  INFO [DAEMON_RPC] st2)
                          else (writer1 @ [Key ''status'', String ''OK'', Key ''error'', String ''''],
                                st2\<lparr>world := relayTransactions (m_syncManager srv) (world st2) [transaction],
                                    events := events st2 @ [RelayTransactions [transaction]]\<rparr>)))
           in (Returned (Error SUCCESS '''', 200),
               st'\<lparr>response := set_content (writer @ [EndObject]) ''application/json'' (response st')\<rparr>)))"

subsection \<open>The handler \<^verbatim>\<open>getRandomOuts\<close>\<close>

text \<open>Lines 601 to 609: the message of a shortfall.\<close>

definition shortfallMessage :: "'j Externals \<Rightarrow> uint64_t \<Rightarrow> uint64_t \<Rightarrow> nat \<Rightarrow> string" where
  "shortfallMessage ext amount numOutputs found =
     ''Failed to get enough matching outputs for amount '' @ showNat (unat amount) @ '' (''
     @ formatAmount ext amount @ ''). Requested outputs: '' @ showNat (unat numOutputs)
     @ '', found outputs: '' @ showNat found
     @ ''. Further explanation here: https://gist.github.com/zpalmtree/80b3e80463225bcfb8f8432043cb594c''
     @ endl
     @ ''Note: If you are a public node operator, you can safely ignore this message. ''
     @ ''It is only relevant to the user sending the transaction.''"

text \<open>Lines 620 to 631: one object for each index \<^verbatim>\<open>i\<close> below \<^verbatim>\<open>globalIndexes.size()\<close>.\<close>

definition outEntries :: "'j Externals \<Rightarrow> uint32_t list \<Rightarrow> bytes list \<Rightarrow> JsonEvent list" where
  "outEntries ext globalIndexes publicKeys =
     concat (map (\<lambda>i. [StartObject,
                        Key ''global_amount_index'', Uint64 (ucast (globalIndexes ! i)),
                        Key ''out_key'', String (podToHex ext (publicKeys ! i)),
                        EndObject])
                 [0..<length globalIndexes])"

text \<open>
  The loop over \<^verbatim>\<open>amounts\<close> (lines 581 to 636).  A pass that returns early gives the result of
  the handler on the left; otherwise the loop gives, on the right, what this pass wrote
  followed by what the remaining passes write.  With them come the state of the
  collaborators and the calls made.  The count is cast to 16 bits for the call and compared
  at its full width with the size of the returned vector (a \<^verbatim>\<open>size_t\<close>, below \<^verbatim>\<open>2^64\<close>).
\<close>

fun getRandomOutsLoop ::
  "'j Externals \<Rightarrow> 'w Core \<Rightarrow> uint64_t \<Rightarrow> 'j list \<Rightarrow> 'w
     \<Rightarrow> ((Error \<times> uint16_t) + JsonEvent list) \<times> 'w \<times> Event list" where
  "getRandomOutsLoop ext core numOutputs [] w = (Inr [], w, [])"
| "getRandomOutsLoop ext core numOutputs (jsonAmount # rest) w =
     (let amount = GetUint64 ext jsonAmount;
          ((success, error, globalIndexes, publicKeys), w1) =
            getRandomOutputs core w amount (ucast numOutputs);
          call = GetRandomOutputs amount (ucast numOutputs)
      in if \<not> success
         then (Inl (Error CANT_GET_FAKE_OUTPUTS error, 200), w1, [call])
         else if length globalIndexes \<noteq> unat numOutputs
         then (Inl (Error CANT_GET_FAKE_OUTPUTS
                      (shortfallMessage ext amount numOutputs (length globalIndexes)), 200),
               w1, [call])
         else (case getRandomOutsLoop ext core numOutputs rest w1 of
                 (Inl result, w2, calls) \<Rightarrow> (Inl result, w2, call # calls)
               | (Inr written, w2, calls) \<Rightarrow>
                   (Inr ([StartObject, Key ''amount'', Uint64 amount, Key ''outs'', StartArray]
                         @ outEntries ext globalIndexes publicKeys
                         @ [EndArray, EndObject] @ written),
                    w2, call # calls)))"

definition getRandomOuts :: "'j Externals \<Rightarrow> 'w RpcServer \<Rightarrow> ('j, 'w) handler" where
  "getRandomOuts ext srv req jsonBody st =
     (case getUint64FromJSON ext jsonBody ''outs_count'' of
        Inl e \<Rightarrow> (Threw e, st)
      | Inr numOutputs \<Rightarrow>
          (case getArrayFromJSON ext jsonBody ''amounts'' of
             Inl e \<Rightarrow> (Threw e, st)
           | Inr amounts \<Rightarrow>
               (case getRandomOutsLoop ext (m_core srv) numOutputs amounts (world st) of
                  (Inl result, w, calls) \<Rightarrow>
                    (Returned result, st\<lparr>world := w, events := events st @ calls\<rparr>)
                | (Inr written, w, calls) \<Rightarrow>
                    (Returned (Error SUCCESS '''', 200),
                     st\<lparr>response :=
                          set_content
                            ([StartObject, Key ''outs'', StartArray] @ written
                             @ [EndArray, Key ''status'', String ''OK'', EndObject])
                            ''application/json'' (response st),
                        world := w, events := events st @ calls\<rparr>))))"

subsection \<open>The routes\<close>

text \<open>
  Lines 68 to 74 of the constructor: each route passes its handler through the middleware
  with the permission level \<^verbatim>\<open>RpcMode::Default\<close>; the two \<^verbatim>\<open>POST\<close> routes require a body.
\<close>

definition get_info :: "'j Externals \<Rightarrow> 'w RpcServer \<Rightarrow> Request \<Rightarrow> 'w RpcState \<Rightarrow> 'w RpcState" where
  "get_info ext srv req = middleware ext srv req Default False (info ext srv)"

definition post_sendrawtransaction ::
  "'j Externals \<Rightarrow> 'w RpcServer \<Rightarrow> Request \<Rightarrow> 'w RpcState \<Rightarrow> 'w RpcState" where
  "post_sendrawtransaction ext srv req = middleware ext srv req Default True (sendTransaction ext srv)"

definition post_getrandom_outs ::
  "'j Externals \<Rightarrow> 'w RpcServer \<Rightarrow> Request \<Rightarrow> 'w RpcState \<Rightarrow> 'w RpcState" where
  "post_getrandom_outs ext srv req = middleware ext srv req Default True (getRandomOuts ext srv)"

section \<open>Observations on a response body and on a trace\<close>

text \<open>
  The two envelopes the specification names: the in-band failure
  \<^verbatim>\<open>{"status": "Failed", "error": <string>}\<close> and the error envelope
  \<^verbatim>\<open>{"errorCode": <int>, "errorMessage": <string>}\<close>.
\<close>

definition isFailedEnvelope :: "JsonEvent list \<Rightarrow> bool" where
  "isFailedEnvelope ts =
     (length ts = 6 \<and> take 4 ts = [StartObject, Key ''status'', String ''Failed'', Key ''error'']
      \<and> (case ts ! 4 of String m \<Rightarrow> True | _ \<Rightarrow> False) \<and> ts ! 5 = EndObject)"

definition isErrorCodeEnvelope :: "JsonEvent list \<Rightarrow> bool" where
  "isErrorCodeEnvelope ts =
     (length ts = 6 \<and> take 2 ts = [StartObject, Key ''errorCode'']
      \<and> (case ts ! 2 of Uint c \<Rightarrow> True | _ \<Rightarrow> False) \<and> ts ! 3 = Key ''errorMessage''
      \<and> (case ts ! 4 of String m \<Rightarrow> True | _ \<Rightarrow> False) \<and> ts ! 5 = EndObject)"

text \<open>The value written after the first occurrence of a key, and its reading as a number.\<close>

fun valueOfKey :: "string \<Rightarrow> JsonEvent list \<Rightarrow> JsonEvent option" where
  "valueOfKey k [] = None"
| "valueOfKey k (t # ts) =
     (if t = Key k then (case ts of [] \<Rightarrow> None | v # rest \<Rightarrow> Some v) else valueOfKey k ts)"

definition numberOfKey :: "string \<Rightarrow> JsonEvent list \<Rightarrow> nat option" where
  "numberOfKey k ts = (case valueOfKey k ts of Some (Uint64 v) \<Rightarrow> Some (unat v) | _ \<Rightarrow> None)"

definition relayCalls :: "Event list \<Rightarrow> Event list" where
  "relayCalls evs = filter (\<lambda>e. case e of RelayTransactions ts \<Rightarrow> True | _ \<Rightarrow> False) evs"

section \<open>A test scenario\<close>

text \<open>
  Concrete collaborators, library functions and requests, on which the theorems below are
  evaluated.  A parsed document is a small JSON value; the example parser accepts a handful
  of bodies and reports a parse error on every other text.  The example ledger holds three
  outputs of amount 100 and ten outputs of every other amount, and admits one
  transaction.
\<close>

datatype ExampleJson =
    ENull
  | ENumber uint64_t
  | EString string
  | EArray "ExampleJson list"
  | EObject "(string \<times> ExampleJson) list"

record ExampleWorld =
  poolCount :: nat
  nextDifficulty :: uint64_t
  relayed :: "bytes list"

definition exampleParse :: "string \<Rightarrow> ExampleJson option" where
  "exampleParse s =
     (if s = ''{tx_as_hex:dead}'' then Some (EObject [(''tx_as_hex'', EString ''dead'')])
      else if s = ''{tx_as_hex:beef}'' then Some (EObject [(''tx_as_hex'', EString ''beef'')])
      else if s = ''{tx_as_hex:zz}'' then Some (EObject [(''tx_as_hex'', EString ''zz'')])
      else if s = ''{outs_count:5,amounts:[100]}''
        then Some (EObject [(''outs_count'', ENumber 5), (''amounts'', EArray [ENumber 100])])
      else if s = ''{outs_count:5,amounts:[200,100,300]}''
        then Some (EObject [(''outs_count'', ENumber 5),
                            (''amounts'', EArray [ENumber 200, ENumber 100, ENumber 300])])
      else if s = ''{outs_count:65541,amounts:[200]}''
        then Some (EObject [(''outs_count'', ENumber 65541), (''amounts'', EArray [ENumber 200])])
      else None)"

definition exampleMember :: "ExampleJson \<Rightarrow> string \<Rightarrow> Exn + ExampleJson" where
  "exampleMember j key =
     (case j of
        EObject members \<Rightarrow>
          (case map_of members key of
             Some v \<Rightarrow> Inr v
           | None \<Rightarrow> Inl (InvalidArgument (''Missing JSON parameter: '' @ key)))
      | _ \<Rightarrow> Inl (InvalidArgument (''Missing JSON parameter: '' @ key)))"

definition exampleGetString :: "ExampleJson \<Rightarrow> string \<Rightarrow> Exn + string" where
  "exampleGetString j key =
     (case exampleMember j key of
        Inl e \<Rightarrow> Inl e
      | Inr (EString s) \<Rightarrow> Inr s
      | Inr _ \<Rightarrow> Inl (InvalidArgument ''JSON parameter is wrong type''))"

definition exampleGetUint64 :: "ExampleJson \<Rightarrow> string \<Rightarrow> Exn + uint64_t" where
  "exampleGetUint64 j key =
     (case exampleMember j key of
        Inl e \<Rightarrow> Inl e
      | Inr (ENumber n) \<Rightarrow> Inr n
      | Inr _ \<Rightarrow> Inl (InvalidArgument ''JSON parameter is wrong type''))"

definition exampleGetArray :: "ExampleJson \<Rightarrow> string \<Rightarrow> Exn + ExampleJson list" where
  "exampleGetArray j key =
     (case exampleMember j key of
        Inl e \<Rightarrow> Inl e
      | Inr (EArray vs) \<Rightarrow> Inr vs
      | Inr _ \<Rightarrow> Inl (InvalidArgument ''JSON parameter is wrong type''))"

definition exampleNumber :: "ExampleJson \<Rightarrow> uint64_t" where
  "exampleNumber j = (case j of ENumber n \<Rightarrow> n | _ \<Rightarrow> 0)"

definition exampleFromHex :: "string \<Rightarrow> bytes option" where
  "exampleFromHex s =
     (if s = ''dead'' then Some [0xDE, 0xAD]
      else if s = ''beef'' then Some [0xBE, 0xEF]
      else None)"

definition exampleToHex :: "bytes \<Rightarrow> string" where
  "exampleToHex bs =
     concat (map (\<lambda>b. [''0123456789abcdef'' ! (unat b div 16), ''0123456789abcdef'' ! (unat b mod 16)]) bs)"

definition exampleErrorCodeValue :: "ErrorCode \<Rightarrow> nat" where
  "exampleErrorCodeValue c = (case c of SUCCESS \<Rightarrow> 0 | CANT_GET_FAKE_OUTPUTS \<Rightarrow> 1 | OTHER_ERROR n \<Rightarrow> n + 2)"

definition exampleExt :: "ExampleJson Externals" where
  "exampleExt =
     \<lparr>parseJson = exampleParse,
      nullDocument = ENull,
      getStringFromJSON = exampleGetString,
      getUint64FromJSON = exampleGetUint64,
      getArrayFromJSON = exampleGetArray,
      GetUint64 = exampleNumber,
      fromHex = exampleFromHex,
      cn_fast_hash = rev,
      podToHex = exampleToHex,
      printHash = exampleToHex,
      formatAmount = (\<lambda>amount. showNat (unat amount) @ '' atomic units''),
      errorCodeValue = exampleErrorCodeValue,
      FORK_HEIGHTS = [0, 100, 200],
      CURRENT_FORK_INDEX = 1,
      DIFFICULTY_TARGET = 30,
      PROJECT_VERSION = ''1.0.0''\<rparr>"

definition exampleCore :: "ExampleWorld Core" where
  "exampleCore =
     \<lparr>getTopBlockIndex = (\<lambda>w. 99),
      getBlockDetails = (\<lambda>w index. \<lparr>majorVersion = 6, minorVersion = 0\<rparr>),
      getDifficultyForNextBlock = nextDifficulty,
      getBlockchainTransactionCount = (\<lambda>w. 250),
      getPoolTransactionCount = (\<lambda>w. of_nat (poolCount w)),
      getAlternativeBlockCount = (\<lambda>w. 0),
      getStartTime = (\<lambda>w. 1572700000),
      addTransactionToPool =
        (\<lambda>w transaction.
           if transaction = [0xDE, 0xAD] then ((True, ''''), w\<lparr>poolCount := poolCount w + 1\<rparr>)
           else ((False, ''Transaction is a double spend''), w)),
      getRandomOutputs =
        (\<lambda>w amount count.
           if amount = 100
           then ((True, '''', take (unat count) [7, 8, 9], take (unat count) [[1], [2], [3]]), w)
           else ((True, '''', take (unat count) [0, 1, 2, 3, 4, 5, 6, 7, 8, 9],
                  take (unat count) [[0], [1], [2], [3], [4], [5], [6], [7], [8], [9]]), w))\<rparr>"

definition exampleServer :: "ExampleWorld RpcServer" where
  "exampleServer =
     \<lparr>m_corsHeader = ''*'',
      m_feeAddress = '''',
      m_feeAmount = 0,
      m_rpcMode = Default,
      m_core = exampleCore,
      m_p2p = \<lparr>get_connections_count = (\<lambda>w. 12),
               get_outgoing_connections_count = (\<lambda>w. 8),
               get_white_peers_count = (\<lambda>w. 40),
               get_gray_peers_count = (\<lambda>w. 300)\<rparr>,
      m_syncManager = \<lparr>getBlockchainHeight = (\<lambda>w. 100),
                       getObservedHeight = (\<lambda>w. 100),
                       relayTransactions = (\<lambda>w transactions. w\<lparr>relayed := relayed w @ transactions\<rparr>)\<rparr>\<rparr>"

definition exampleState :: "ExampleWorld RpcState" where
  "exampleState =
     \<lparr>response = \<lparr>status = - 1, content = [], headers = []\<rparr>,
      world = \<lparr>poolCount = 0, nextDifficulty = 3000, relayed = []\<rparr>,
      events = []\<rparr>"

definition exampleStateHighDifficulty :: "ExampleWorld RpcState" where
  "exampleStateHighDifficulty =
     \<lparr>response = \<lparr>status = - 1, content = [], headers = []\<rparr>,
      world = \<lparr>poolCount = 0, nextDifficulty = 270215977642229790, relayed = []\<rparr>,
      events = []\<rparr>"

definition examplePost :: "string \<Rightarrow> string \<Rightarrow> Request" where
  "examplePost p b = \<lparr>http_method = ''POST'', path = p, body = b\<rparr>"

text \<open>Library functions whose accessor of a string fails with an exception that is not a bad argument.\<close>

definition exampleFaultyExt :: "ExampleJson Externals" where
  "exampleFaultyExt = exampleExt\<lparr>getStringFromJSON := (\<lambda>j key. Inl (OtherException ''std::bad_alloc''))\<rparr>"

definition exampleGet :: "string \<Rightarrow> Request" where
  "exampleGet p = \<lparr>http_method = ''GET'', path = p, body = ''''\<rparr>"

section \<open>Facts about the response and the middleware\<close>

lemma content_set_content: "content (set_content s t r) = s"
  by (simp add: set_content_def set_header_def)

lemma status_failRequest: "status (failRequest port message r) = uint port"
  by (simp add: failRequest_def)

lemma content_failRequest:
  "content (failRequest port message r) =
     [StartObject, Key ''status'', String ''Failed'', Key ''error'', String message, EndObject]"
  by (simp add: failRequest_def content_set_content)

lemma world_preamble: "world (preamble srv req st) = world st"
  by (simp add: preamble_def log_def Let_def)

lemma events_preamble:
  "events (preamble srv req st) =
     events st @ [Log (''Incoming '' @ http_method req @ '' request: '' @ path req) DEBUG [DAEMON_RPC]]"
  by (simp add: preamble_def log_def Let_def)

lemma middleware_parse_failure:
  assumes "parseBody ext req bodyRequired = None"
  shows "middleware ext srv req routePermissions bodyRequired handler st
           = parseFailure req (preamble srv req st)"
  using assms by (simp add: middleware_def)

lemma middleware_permission_failure:
  assumes "parseBody ext req bodyRequired = Some jsonBody"
    and "rpcModeValue routePermissions > rpcModeValue (m_rpcMode srv)"
  shows "middleware ext srv req routePermissions bodyRequired handler st
           = permissionFailure routePermissions (preamble srv req st)"
  using assms by (simp add: middleware_def)

lemma middleware_invokes:
  assumes "parseBody ext req bodyRequired = Some jsonBody"
    and "\<not> rpcModeValue routePermissions > rpcModeValue (m_rpcMode srv)"
  shows "middleware ext srv req routePermissions bodyRequired handler st
           = invokeHandler ext handler req jsonBody (preamble srv req st)"
  using assms by (simp add: middleware_def)

lemma default_route_invokes:
  assumes "parseJson ext (body req) = Some jsonBody"
  shows "middleware ext srv req Default True handler st
           = invokeHandler ext handler req jsonBody (preamble srv req st)"
  by (rule middleware_invokes) (simp_all add: parseBody_def assms)

lemma success_is_no_error: "\<not> isError (Error SUCCESS message)"
  by (simp add: isError_def Error_def)

lemma cant_get_fake_outputs_is_error: "isError (Error CANT_GET_FAKE_OUTPUTS message)"
  by (simp add: isError_def Error_def)

section \<open>The middleware\<close>

text \<open>
  C2.  When the handler of a routed request is reached and returns, the status of the
  response is 400 if the returned result is an error, whatever status the handler proposed,
  and the proposed status otherwise; in the error case the body is the object with the keys
  \<^verbatim>\<open>errorCode\<close> and \<^verbatim>\<open>errorMessage\<close>, otherwise it is the body the handler wrote.
\<close>

theorem middleware_status_of_handler_result:
  assumes "parseBody ext req bodyRequired = Some jsonBody"
    and "\<not> rpcModeValue routePermissions > rpcModeValue (m_rpcMode srv)"
    and "handler req jsonBody (preamble srv req st) = (Returned (error, statusCode), st1)"
  shows "status (response (middleware ext srv req routePermissions bodyRequired handler st))
           = (if isError error then 400 else uint statusCode)
         \<and> content (response (middleware ext srv req routePermissions bodyRequired handler st))
           = (if isError error
              then [StartObject,
                    Key ''errorCode'', Uint (errorCodeValue ext (getErrorCode error)),
                    Key ''errorMessage'', String (getErrorMessage error),
                    EndObject]
              else content (response st1))"
proof -
  have "middleware ext srv req routePermissions bodyRequired handler st
          = invokeHandler ext handler req jsonBody (preamble srv req st)"
    using assms(1,2) by (rule middleware_invokes)
  then show ?thesis
    using assms(3) by (simp add: invokeHandler_def content_set_content)
qed

text \<open>
  C6, as amended.  Each failure of the pipeline gives the envelope with the keys \<^verbatim>\<open>status\<close>
  (\<^verbatim>\<open>"Failed"\<close>) and \<^verbatim>\<open>error\<close>, with status 400 for a body that does not parse and for a
  bad-argument exception, 403 for a missing permission and 500 for any other exception.
\<close>

theorem pipeline_failure_envelope:
  "(parseBody ext req bodyRequired = None \<longrightarrow>
      status (response (middleware ext srv req routePermissions bodyRequired handler st)) = 400
      \<and> isFailedEnvelope (content (response (middleware ext srv req routePermissions bodyRequired handler st))))
   \<and> (parseBody ext req bodyRequired = Some jsonBody
        \<and> rpcModeValue routePermissions > rpcModeValue (m_rpcMode srv) \<longrightarrow>
      status (response (middleware ext srv req routePermissions bodyRequired handler st)) = 403
      \<and> isFailedEnvelope (content (response (middleware ext srv req routePermissions bodyRequired handler st))))
   \<and> (parseBody ext req bodyRequired = Some jsonBody
        \<and> \<not> rpcModeValue routePermissions > rpcModeValue (m_rpcMode srv)
        \<and> handler req jsonBody (preamble srv req st) = (Threw (InvalidArgument what), st1) \<longrightarrow>
      status (response (middleware ext srv req routePermissions bodyRequired handler st)) = 400
      \<and> content (response (middleware ext srv req routePermissions bodyRequired handler st))
          = [StartObject, Key ''status'', String ''Failed'', Key ''error'', String what, EndObject])
   \<and> (parseBody ext req bodyRequired = Some jsonBody
        \<and> \<not> rpcModeValue routePermissions > rpcModeValue (m_rpcMode srv)
        \<and> handler req jsonBody (preamble srv req st) = (Threw (OtherException what), st1) \<longrightarrow>
      status (response (middleware ext srv req routePermissions bodyRequired handler st)) = 500
      \<and> content (response (middleware ext srv req routePermissions bodyRequired handler st))
          = [StartObject, Key ''status'', String ''Failed'',
             Key ''error'', String (''Internal server error: '' @ what), EndObject])"
proof (intro conjI impI)
  assume "parseBody ext req bodyRequired = None"
  then have m: "middleware ext srv req routePermissions bodyRequired handler st
                  = parseFailure req (preamble srv req st)"
    by (rule middleware_parse_failure)
  show "status (response (middleware ext srv req routePermissions bodyRequired handler st)) = 400"
    by (simp add: m parseFailure_def Let_def status_failRequest split: prod.splits)
  show "isFailedEnvelope (content (response (middleware ext srv req routePermissions bodyRequired handler st)))"
    by (simp add: m parseFailure_def Let_def content_failRequest isFailedEnvelope_def split: prod.splits)
next
  assume a: "parseBody ext req bodyRequired = Some jsonBody
               \<and> rpcModeValue routePermissions > rpcModeValue (m_rpcMode srv)"
  then have m: "middleware ext srv req routePermissions bodyRequired handler st
                  = permissionFailure routePermissions (preamble srv req st)"
    by (simp add: middleware_permission_failure)
  show "status (response (middleware ext srv req routePermissions bodyRequired handler st)) = 403"
    by (simp add: m permissionFailure_def Let_def status_failRequest)
  show "isFailedEnvelope (content (response (middleware ext srv req routePermissions bodyRequired handler st)))"
    by (simp add: m permissionFailure_def Let_def content_failRequest isFailedEnvelope_def)
next
  assume a: "parseBody ext req bodyRequired = Some jsonBody
               \<and> \<not> rpcModeValue routePermissions > rpcModeValue (m_rpcMode srv)
               \<and> handler req jsonBody (preamble srv req st) = (Threw (InvalidArgument what), st1)"
  then have m: "middleware ext srv req routePermissions bodyRequired handler st
                  = invokeHandler ext handler req jsonBody (preamble srv req st)"
    by (simp add: middleware_invokes)
  from a have h: "handler req jsonBody (preamble srv req st) = (Threw (InvalidArgument what), st1)"
    by simp
  show "status (response (middleware ext srv req routePermissions bodyRequired handler st)) = 400"
    using h by (simp add: m invokeHandler_def Let_def status_failRequest)
  show "content (response (middleware ext srv req routePermissions bodyRequired handler st))
          = [StartObject, Key ''status'', String ''Failed'', Key ''error'', String what, EndObject]"
    using h by (simp add: m invokeHandler_def Let_def content_failRequest)
next
  assume a: "parseBody ext req bodyRequired = Some jsonBody
               \<and> \<not> rpcModeValue routePermissions > rpcModeValue (m_rpcMode srv)
               \<and> handler req jsonBody (preamble srv req st) = (Threw (OtherException what), st1)"
  then have m: "middleware ext srv req routePermissions bodyRequired handler st
                  = invokeHandler ext handler req jsonBody (preamble srv req st)"
    by (simp add: middleware_invokes)
  from a have h: "handler req jsonBody (preamble srv req st) = (Threw (OtherException what), st1)"
    by simp
  show "status (response (middleware ext srv req routePermissions bodyRequired handler st)) = 500"
    using h by (simp add: m invokeHandler_def Let_def status_failRequest)
  show "content (response (middleware ext srv req routePermissions bodyRequired handler st))
          = [StartObject, Key ''status'', String ''Failed'',
             Key ''error'', String (''Internal server error: '' @ what), EndObject]"
    using h by (simp add: m invokeHandler_def Let_def content_failRequest)
qed

lemma default_is_lowest: "\<not> rpcModeValue Default > rpcModeValue mode"
  by simp


section \<open>Submitting a transaction\<close>

lemma sendTransaction_bad_hex_result:
  assumes "getStringFromJSON ext jsonBody ''tx_as_hex'' = Inr rawData"
    and "fromHex ext rawData = None"
  shows "sendTransaction ext srv req jsonBody st =
           (Returned (Error SUCCESS '''', 200),
            st\<lparr>response :=
                 set_content
                   [StartObject, Key ''status'', String ''Failed'',
                    Key ''error'', String ''Failed to parse transaction from hex buffer'', EndObject]
                   ''application/json'' (response st)\<rparr>)"
  by (simp add: sendTransaction_def assms)

lemma sendTransaction_valid_hex_result:
  assumes "getStringFromJSON ext jsonBody ''tx_as_hex'' = Inr rawData"
    and "fromHex ext rawData = Some B"
    and "addTransactionToPool (m_core srv) (world st) B = ((success, reason), w1)"
  shows "fst (sendTransaction ext srv req jsonBody st) = Returned (Error SUCCESS '''', 200)"
    and "response (snd (sendTransaction ext srv req jsonBody st)) =
           set_content
             [StartObject,
              Key ''transactionHash'', String (podToHex ext (cn_fast_hash ext B)),
              Key ''status'', String (if success then ''OK'' else ''Failed''),
              Key ''error'', String (if success then '''' else reason),
              EndObject]
             ''application/json'' (response st)"
    and "world (snd (sendTransaction ext srv req jsonBody st)) =
           (if success then relayTransactions (m_syncManager srv) w1 [B] else w1)"
    and "events (snd (sendTransaction ext srv req jsonBody st)) =
           events st
           @ [Log (''Attempting to add transaction '' @ printHash ext (cn_fast_hash ext B)
                    @ '' from /sendrawtransaction to pool'') DEBUG [DAEMON_RPC],
              AddTransactionToPool B]
           @ (if success then [RelayTransactions [B]]
              else [Log (''Failed to add transaction '' @ printHash ext (cn_fast_hash ext B)
                          @ '' from /sendrawtransaction to pool: '' @ reason) INFO [DAEMON_RPC]])"
  by (simp_all add: sendTransaction_def assms log_def Let_def)

lemma relayCalls_append: "relayCalls (xs @ ys) = relayCalls xs @ relayCalls ys"
  by (simp add: relayCalls_def)

lemma invokeHandler_success:
  assumes "fst (handler req jsonBody st) = Returned (Error SUCCESS message, statusCode)"
  shows "invokeHandler ext handler req jsonBody st =
           (snd (handler req jsonBody st))
             \<lparr>response := (response (snd (handler req jsonBody st)))\<lparr>status := uint statusCode\<rparr>\<rparr>"
proof (cases "handler req jsonBody st")
  case (Pair r st1)
  with assms have "handler req jsonBody st = (Returned (Error SUCCESS message, statusCode), st1)"
    by simp
  then show ?thesis
    by (simp add: invokeHandler_def success_is_no_error)
qed

text \<open>
  C5.  A request to \<^verbatim>\<open>/sendrawtransaction\<close> whose body parses and whose \<^verbatim>\<open>tx_as_hex\<close> string is
  not valid hex gets status 200 and the body
  \<^verbatim>\<open>{"status": "Failed", "error": "Failed to parse transaction from hex buffer"}\<close>; the
  handler returns success, the collaborators are not touched.
\<close>

theorem sendTransaction_invalid_hex_in_band:
  assumes "parseJson ext (body req) = Some jsonBody"
    and "getStringFromJSON ext jsonBody ''tx_as_hex'' = Inr rawData"
    and "fromHex ext rawData = None"
  shows "status (response (post_sendrawtransaction ext srv req st)) = 200
         \<and> content (response (post_sendrawtransaction ext srv req st))
           = [StartObject, Key ''status'', String ''Failed'',
              Key ''error'', String ''Failed to parse transaction from hex buffer'', EndObject]
         \<and> fst (sendTransaction ext srv req jsonBody (preamble srv req st))
           = Returned (Error SUCCESS '''', 200)
         \<and> world (post_sendrawtransaction ext srv req st) = world st
         \<and> events (post_sendrawtransaction ext srv req st)
           = events st @ [Log (''Incoming '' @ http_method req @ '' request: '' @ path req) DEBUG [DAEMON_RPC]]"
proof -
  let ?st = "preamble srv req st"
  have h: "sendTransaction ext srv req jsonBody ?st =
             (Returned (Error SUCCESS '''', 200),
              ?st\<lparr>response :=
                    set_content
                      [StartObject, Key ''status'', String ''Failed'',
                       Key ''error'', String ''Failed to parse transaction from hex buffer'', EndObject]
                      ''application/json'' (response ?st)\<rparr>)"
    using assms(2,3) by (rule sendTransaction_bad_hex_result)
  have m: "post_sendrawtransaction ext srv req st
             = invokeHandler ext (sendTransaction ext srv) req jsonBody ?st"
    unfolding post_sendrawtransaction_def using assms(1) by (rule default_route_invokes)
  show ?thesis
    by (simp add: m invokeHandler_def h success_is_no_error content_set_content
          world_preamble events_preamble)
qed

text \<open>
  C4.  A request to \<^verbatim>\<open>/sendrawtransaction\<close> whose \<^verbatim>\<open>tx_as_hex\<close> decodes to the bytes \<^verbatim>\<open>B\<close> gets
  status 200 and a body whose \<^verbatim>\<open>transactionHash\<close> is the hex form of the hash of \<^verbatim>\<open>B\<close>.  If the
  pool admits \<^verbatim>\<open>B\<close>, exactly one call of \<^verbatim>\<open>relayTransactions\<close> is added to the trace, with
  \<^verbatim>\<open>B\<close> alone, and the body reports \<^verbatim>\<open>OK\<close>; if the pool rejects \<^verbatim>\<open>B\<close>, no such call is added
  and the body reports \<^verbatim>\<open>Failed\<close> with the reason the pool gave.
\<close>

theorem sendTransaction_hash_and_relay:
  assumes "parseJson ext (body req) = Some jsonBody"
    and "getStringFromJSON ext jsonBody ''tx_as_hex'' = Inr rawData"
    and "fromHex ext rawData = Some B"
    and "addTransactionToPool (m_core srv) (world st) B = ((success, reason), w1)"
  shows "status (response (post_sendrawtransaction ext srv req st)) = 200
         \<and> content (response (post_sendrawtransaction ext srv req st))
           = [StartObject,
              Key ''transactionHash'', String (podToHex ext (cn_fast_hash ext B)),
              Key ''status'', String (if success then ''OK'' else ''Failed''),
              Key ''error'', String (if success then '''' else reason),
              EndObject]
         \<and> relayCalls (events (post_sendrawtransaction ext srv req st))
           = relayCalls (events st) @ (if success then [RelayTransactions [B]] else [])
         \<and> world (post_sendrawtransaction ext srv req st)
           = (if success then relayTransactions (m_syncManager srv) w1 [B] else w1)"
proof -
  let ?st = "preamble srv req st"
  have a: "addTransactionToPool (m_core srv) (world ?st) B = ((success, reason), w1)"
    using assms(4) by (simp add: world_preamble)
  note r = sendTransaction_valid_hex_result [OF assms(2,3) a]
  have m: "post_sendrawtransaction ext srv req st
             = invokeHandler ext (sendTransaction ext srv) req jsonBody ?st"
    unfolding post_sendrawtransaction_def using assms(1) by (rule default_route_invokes)
  have i: "invokeHandler ext (sendTransaction ext srv) req jsonBody ?st =
             (snd (sendTransaction ext srv req jsonBody ?st))
               \<lparr>response := (response (snd (sendTransaction ext srv req jsonBody ?st)))\<lparr>status := 200\<rparr>\<rparr>"
    using invokeHandler_success [of "sendTransaction ext srv" req jsonBody ?st "''''" 200 ext] r(1)
    by simp
  show ?thesis
    by (simp add: m i r content_set_content events_preamble relayCalls_append)
      (simp add: relayCalls_def)
qed

text \<open>
  C10.  Once \<^verbatim>\<open>tx_as_hex\<close> has decoded, the body the handler writes starts with the
  \<^verbatim>\<open>transactionHash\<close>, whatever the pool answers; when the pool rejects the transaction the
  body is the hash followed by the status \<^verbatim>\<open>Failed\<close> and the reason of the pool.
\<close>

theorem sendTransaction_hash_before_admission:
  assumes "getStringFromJSON ext jsonBody ''tx_as_hex'' = Inr rawData"
    and "fromHex ext rawData = Some B"
    and "addTransactionToPool (m_core srv) (world st) B = ((success, reason), w1)"
  shows "take 3 (content (response (snd (sendTransaction ext srv req jsonBody st))))
           = [StartObject, Key ''transactionHash'', String (podToHex ext (cn_fast_hash ext B))]
         \<and> (\<not> success \<longrightarrow>
              content (response (snd (sendTransaction ext srv req jsonBody st)))
                = [StartObject,
                   Key ''transactionHash'', String (podToHex ext (cn_fast_hash ext B)),
                   Key ''status'', String ''Failed'',
                   Key ''error'', String reason,
                   EndObject])"
  using sendTransaction_valid_hex_result(2) [OF assms]
  by (simp add: content_set_content)

section \<open>Sampling random outputs\<close>

lemma getRandomOutsLoop_append:
  "getRandomOutsLoop ext core n (xs @ ys) w =
     (case getRandomOutsLoop ext core n xs w of
        (Inl r, w1, calls) \<Rightarrow> (Inl r, w1, calls)
      | (Inr written, w1, calls) \<Rightarrow>
          (case getRandomOutsLoop ext core n ys w1 of
             (Inl r, w2, calls2) \<Rightarrow> (Inl r, w2, calls @ calls2)
           | (Inr written2, w2, calls2) \<Rightarrow> (Inr (written @ written2), w2, calls @ calls2)))"
  by (induction xs arbitrary: w) (auto simp: Let_def split: prod.splits sum.splits)

lemma getRandomOutsLoop_mismatch:
  assumes "getRandomOutputs core w (GetUint64 ext j) (ucast n) = ((success, error, idxs, keys), w1)"
    and "length idxs \<noteq> unat n"
  shows "getRandomOutsLoop ext core n (j # rest) w =
           (Inl (Error CANT_GET_FAKE_OUTPUTS
                   (if success then shortfallMessage ext (GetUint64 ext j) n (length idxs) else error),
                 200),
            w1, [GetRandomOutputs (GetUint64 ext j) (ucast n)])"
  using assms by (simp add: Let_def)

lemma getRandomOutsLoop_first_mismatch:
  assumes "getRandomOutsLoop ext core n before w = (Inr written, w1, calls)"
    and "getRandomOutputs core w1 (GetUint64 ext j) (ucast n) = ((success, error, idxs, keys), w2)"
    and "length idxs \<noteq> unat n"
  shows "getRandomOutsLoop ext core n (before @ j # after) w =
           (Inl (Error CANT_GET_FAKE_OUTPUTS
                   (if success then shortfallMessage ext (GetUint64 ext j) n (length idxs) else error),
                 200),
            w2, calls @ [GetRandomOutputs (GetUint64 ext j) (ucast n)])"
  by (simp add: getRandomOutsLoop_append assms(1) getRandomOutsLoop_mismatch [OF assms(2,3)]
        del: getRandomOutsLoop.simps)

lemma getRandomOuts_aborted:
  assumes "getUint64FromJSON ext jsonBody ''outs_count'' = Inr n"
    and "getArrayFromJSON ext jsonBody ''amounts'' = Inr amounts"
    and "getRandomOutsLoop ext (m_core srv) n amounts (world st) = (Inl result, w, calls)"
  shows "getRandomOuts ext srv req jsonBody st
           = (Returned result, st\<lparr>world := w, events := events st @ calls\<rparr>)"
  by (simp add: getRandomOuts_def assms)

text \<open>
  C1, as amended.  Let the body of a request to \<^verbatim>\<open>/getrandom_outs\<close> parse, let the ledger have
  answered every amount before some amount of the array with exactly \<^verbatim>\<open>outs_count\<close> outputs,
  and let it return fewer for that amount.  Then the handler returns the error
  \<^verbatim>\<open>CANT_GET_FAKE_OUTPUTS\<close> with the proposed status 200 and leaves the response as it was; its
  message names the amount, the requested count and the count found when the ledger
  reported success, and is the message of the ledger otherwise.  The response of the route
  has status 400 and its body is the error envelope alone.
\<close>

theorem getRandomOuts_shortfall_aborts:
  assumes "parseJson ext (body req) = Some jsonBody"
    and "getUint64FromJSON ext jsonBody ''outs_count'' = Inr numOutputs"
    and "getArrayFromJSON ext jsonBody ''amounts'' = Inr (before @ jsonAmount # after)"
    and "getRandomOutsLoop ext (m_core srv) numOutputs before (world st) = (Inr written, w1, calls)"
    and "getRandomOutputs (m_core srv) w1 (GetUint64 ext jsonAmount) (ucast numOutputs)
           = ((success, error, globalIndexes, publicKeys), w2)"
    and "length globalIndexes < unat numOutputs"
  shows "fst (getRandomOuts ext srv req jsonBody (preamble srv req st))
           = Returned (Error CANT_GET_FAKE_OUTPUTS
                         (if success
                          then shortfallMessage ext (GetUint64 ext jsonAmount) numOutputs (length globalIndexes)
                          else error),
                       200)
         \<and> response (snd (getRandomOuts ext srv req jsonBody (preamble srv req st)))
           = response (preamble srv req st)
         \<and> status (response (post_getrandom_outs ext srv req st)) = 400
         \<and> content (response (post_getrandom_outs ext srv req st))
           = [StartObject,
              Key ''errorCode'', Uint (errorCodeValue ext CANT_GET_FAKE_OUTPUTS),
              Key ''errorMessage'',
              String (if success
                      then shortfallMessage ext (GetUint64 ext jsonAmount) numOutputs (length globalIndexes)
                      else error),
              EndObject]"
proof -
  let ?st = "preamble srv req st"
  let ?message = "if success
                  then shortfallMessage ext (GetUint64 ext jsonAmount) numOutputs (length globalIndexes)
                  else error"
  let ?call = "GetRandomOutputs (GetUint64 ext jsonAmount) (ucast numOutputs)"
  have ne: "length globalIndexes \<noteq> unat numOutputs"
    using assms(6) by simp
  have b: "getRandomOutsLoop ext (m_core srv) numOutputs before (world ?st) = (Inr written, w1, calls)"
    using assms(4) by (simp add: world_preamble)
  have l: "getRandomOutsLoop ext (m_core srv) numOutputs (before @ jsonAmount # after) (world ?st)
             = (Inl (Error CANT_GET_FAKE_OUTPUTS ?message, 200), w2, calls @ [?call])"
    using b assms(5) ne by (rule getRandomOutsLoop_first_mismatch)
  have h: "getRandomOuts ext srv req jsonBody ?st
             = (Returned (Error CANT_GET_FAKE_OUTPUTS ?message, 200),
                ?st\<lparr>world := w2, events := events ?st @ (calls @ [?call])\<rparr>)"
    using assms(2,3) l by (rule getRandomOuts_aborted)
  have m: "post_getrandom_outs ext srv req st
             = invokeHandler ext (getRandomOuts ext srv) req jsonBody ?st"
    unfolding post_getrandom_outs_def using assms(1) by (rule default_route_invokes)
  have s: "status (response (invokeHandler ext (getRandomOuts ext srv) req jsonBody ?st)) = 400"
    using h by (simp add: invokeHandler_def isError_def Error_def)
  have c: "content (response (invokeHandler ext (getRandomOuts ext srv) req jsonBody ?st)) =
             [StartObject,
              Key ''errorCode'', Uint (errorCodeValue ext CANT_GET_FAKE_OUTPUTS),
              Key ''errorMessage'', String ?message,
              EndObject]"
    using h by (simp add: invokeHandler_def isError_def Error_def content_set_content)
  show ?thesis
    unfolding m s c using h by simp
qed

lemma getRandomOutsLoop_calls:
  "getRandomOutsLoop ext core n xs w = (Inr written, w1, calls)
     \<Longrightarrow> calls = map (\<lambda>j. GetRandomOutputs (GetUint64 ext j) (ucast n)) xs"
  by (induction xs arbitrary: w written calls)
    (auto simp: Let_def split: prod.splits sum.splits if_splits)

text \<open>
  C9.  When \<^verbatim>\<open>outs_count\<close> is at least \<^verbatim>\<open>2^16\<close>, every call of the ledger asks for
  \<^verbatim>\<open>outs_count mod 2^16\<close> outputs, and as soon as the ledger returns that many for an amount,
  the handler returns the error \<^verbatim>\<open>CANT_GET_FAKE_OUTPUTS\<close> and asks for no further amount.
\<close>

theorem getRandomOuts_count_truncated:
  assumes "getUint64FromJSON ext jsonBody ''outs_count'' = Inr numOutputs"
    and "2 ^ 16 \<le> unat numOutputs"
    and "getArrayFromJSON ext jsonBody ''amounts'' = Inr (before @ jsonAmount # after)"
    and "getRandomOutsLoop ext (m_core srv) numOutputs before (world st) = (Inr written, w1, calls)"
    and "getRandomOutputs (m_core srv) w1 (GetUint64 ext jsonAmount) (ucast numOutputs)
           = ((success, error, globalIndexes, publicKeys), w2)"
    and "length globalIndexes = unat (ucast numOutputs :: uint16_t)"
  shows "unat (ucast numOutputs :: uint16_t) = unat numOutputs mod 2 ^ 16
         \<and> getRandomOuts ext srv req jsonBody st
           = (Returned (Error CANT_GET_FAKE_OUTPUTS
                          (if success
                           then shortfallMessage ext (GetUint64 ext jsonAmount) numOutputs (length globalIndexes)
                           else error),
                        200),
              st\<lparr>world := w2,
                 events := events st
                   @ map (\<lambda>j. GetRandomOutputs (GetUint64 ext j) (ucast numOutputs))
                       (before @ [jsonAmount])\<rparr>)"
proof -
  have t: "unat (ucast numOutputs :: uint16_t) = unat numOutputs mod 2 ^ 16"
    by (simp add: unsigned_ucast_eq take_bit_eq_mod)
  have "unat (ucast numOutputs :: uint16_t) < 2 ^ 16"
    by (simp add: t)
  with assms(2,6) have ne: "length globalIndexes \<noteq> unat numOutputs"
    by simp
  have c: "calls = map (\<lambda>j. GetRandomOutputs (GetUint64 ext j) (ucast numOutputs)) before"
    using assms(4) by (rule getRandomOutsLoop_calls)
  have l: "getRandomOutsLoop ext (m_core srv) numOutputs (before @ jsonAmount # after) (world st)
             = (Inl (Error CANT_GET_FAKE_OUTPUTS
                       (if success
                        then shortfallMessage ext (GetUint64 ext jsonAmount) numOutputs (length globalIndexes)
                        else error),
                     200),
                w2, calls @ [GetRandomOutputs (GetUint64 ext jsonAmount) (ucast numOutputs)])"
    using assms(4,5) ne by (rule getRandomOutsLoop_first_mismatch)
  show ?thesis
    using t getRandomOuts_aborted [OF assms(1,3) l] by (simp add: c)
qed

section \<open>The theorems on the test scenario\<close>

lemmas example_defs =
  exampleExt_def exampleServer_def exampleCore_def exampleState_def examplePost_def
  exampleParse_def exampleMember_def exampleGetString_def exampleGetUint64_def
  exampleGetArray_def exampleNumber_def exampleFromHex_def exampleToHex_def
  exampleErrorCodeValue_def

lemma example_mode: "m_rpcMode exampleServer = Default"
  by (simp add: exampleServer_def)

lemma example_parse_shortfall:
  "parseJson exampleExt (body (examplePost p ''{outs_count:5,amounts:[200,100,300]}''))
     = Some (EObject [(''outs_count'', ENumber 5),
                      (''amounts'', EArray [ENumber 200, ENumber 100, ENumber 300])])"
  by (simp add: example_defs)

lemma example_parse_tx:
  "parseJson exampleExt (body (examplePost p ''{tx_as_hex:dead}''))
     = Some (EObject [(''tx_as_hex'', EString ''dead'')])"
  "parseJson exampleExt (body (examplePost p ''{tx_as_hex:beef}''))
     = Some (EObject [(''tx_as_hex'', EString ''beef'')])"
  "parseJson exampleExt (body (examplePost p ''{tx_as_hex:zz}''))
     = Some (EObject [(''tx_as_hex'', EString ''zz'')])"
  by (simp_all add: example_defs)

lemma example_parse_fails:
  "parseJson exampleExt (body (examplePost p ''zz'')) = None"
  "parseJson exampleExt (body (examplePost p '''')) = None"
  by (simp_all add: example_defs)

lemma example_tx_as_hex:
  "getStringFromJSON exampleExt (EObject [(''tx_as_hex'', EString s)]) ''tx_as_hex'' = Inr s"
  by (simp add: example_defs)

lemma example_fromHex:
  "fromHex exampleExt ''dead'' = Some [0xDE, 0xAD]"
  "fromHex exampleExt ''beef'' = Some [0xBE, 0xEF]"
  "fromHex exampleExt ''zz'' = None"
  by (simp_all add: example_defs)

lemma example_admission:
  "addTransactionToPool (m_core exampleServer) (world exampleState) [0xDE, 0xAD]
     = ((True, ''''), \<lparr>poolCount = 1, nextDifficulty = 3000, relayed = []\<rparr>)"
  "addTransactionToPool (m_core exampleServer) (world exampleState) [0xBE, 0xEF]
     = ((False, ''Transaction is a double spend''), world exampleState)"
  by (simp_all add: example_defs)

lemma example_outs_count:
  "getUint64FromJSON exampleExt (EObject [(''outs_count'', ENumber n), (''amounts'', EArray vs)])
     ''outs_count'' = Inr n"
  "getArrayFromJSON exampleExt (EObject [(''outs_count'', ENumber n), (''amounts'', EArray vs)])
     ''amounts'' = Inr vs"
  by (simp_all add: example_defs)

lemma example_number: "GetUint64 exampleExt (ENumber n) = n"
  by (simp add: example_defs)

lemma example_rare_amount:
  "getRandomOutputs (m_core exampleServer) w 100 5 = ((True, '''', [7, 8, 9], [[1], [2], [3]]), w)"
  by (simp add: example_defs)

lemma example_common_amount:
  "getRandomOutputs (m_core exampleServer) w 200 5
     = ((True, '''', [0, 1, 2, 3, 4], [[0], [1], [2], [3], [4]]), w)"
  by (simp add: example_defs)

lemma returned_pair:
  assumes "fst x = Returned r"
  shows "\<exists>st1. x = (Returned r, st1)"
  using assms by (cases x) simp

lemma example_loop_shortfall:
  "getRandomOutsLoop exampleExt (m_core exampleServer) 5 [ENumber 200, ENumber 100, ENumber 300] w
     = (Inl (Error CANT_GET_FAKE_OUTPUTS (shortfallMessage exampleExt 100 5 3), 200),
        w, [GetRandomOutputs 200 5, GetRandomOutputs 100 5])"
  by (simp add: Let_def example_number example_rare_amount example_common_amount numeral_3_eq_3)

text \<open>The two branches of C2, on the handlers of the source.\<close>

theorem middleware_status_of_handler_result_witness:
  "status (response (middleware exampleExt exampleServer
                       (examplePost ''/getrandom_outs'' ''{outs_count:5,amounts:[200,100,300]}'')
                       Default True (getRandomOuts exampleExt exampleServer) exampleState)) = 400
   \<and> status (response (middleware exampleExt exampleServer
                         (examplePost ''/sendrawtransaction'' ''{tx_as_hex:zz}'')
                         Default True (sendTransaction exampleExt exampleServer) exampleState)) = 200"
proof -
  let ?req1 = "examplePost ''/getrandom_outs'' ''{outs_count:5,amounts:[200,100,300]}''"
  let ?doc1 = "EObject [(''outs_count'', ENumber 5),
                        (''amounts'', EArray [ENumber 200, ENumber 100, ENumber 300])]"
  let ?req2 = "examplePost ''/sendrawtransaction'' ''{tx_as_hex:zz}''"
  let ?doc2 = "EObject [(''tx_as_hex'', EString ''zz'')]"
  have p1: "parseBody exampleExt ?req1 True = Some ?doc1"
    by (simp add: parseBody_def example_parse_shortfall)
  have p2: "parseBody exampleExt ?req2 True = Some ?doc2"
    by (simp add: parseBody_def example_parse_tx)
  have q: "\<not> rpcModeValue Default > rpcModeValue (m_rpcMode exampleServer)"
    by simp
  have f1: "fst (getRandomOuts exampleExt exampleServer ?req1 ?doc1 (preamble exampleServer ?req1 exampleState))
          = Returned (Error CANT_GET_FAKE_OUTPUTS (shortfallMessage exampleExt 100 5 3), 200)"
    by (simp add: getRandomOuts_def example_outs_count example_loop_shortfall
          del: getRandomOutsLoop.simps)
  obtain st1 where h1:
    "getRandomOuts exampleExt exampleServer ?req1 ?doc1 (preamble exampleServer ?req1 exampleState)
       = (Returned (Error CANT_GET_FAKE_OUTPUTS (shortfallMessage exampleExt 100 5 3), 200), st1)"
    using returned_pair [OF f1] ..
  have f2: "fst (sendTransaction exampleExt exampleServer ?req2 ?doc2 (preamble exampleServer ?req2 exampleState))
          = Returned (Error SUCCESS '''', 200)"
    by (simp add: sendTransaction_bad_hex_result [OF example_tx_as_hex example_fromHex(3)])
  obtain st2 where h2:
    "sendTransaction exampleExt exampleServer ?req2 ?doc2 (preamble exampleServer ?req2 exampleState)
       = (Returned (Error SUCCESS '''', 200), st2)"
    using returned_pair [OF f2] ..
  have e: "isError (Error CANT_GET_FAKE_OUTPUTS (shortfallMessage exampleExt 100 5 3))"
    by (rule cant_get_fake_outputs_is_error)
  have s: "\<not> isError (Error SUCCESS '''')"
    by (rule success_is_no_error)
  have u: "uint (200 :: uint16_t) = 200"
    by simp
  from middleware_status_of_handler_result
    [where handler = "getRandomOuts exampleExt exampleServer", OF p1 q h1]
  have r1: "status (response (middleware exampleExt exampleServer ?req1 Default True
                               (getRandomOuts exampleExt exampleServer) exampleState)) = 400"
    by (simp only: e if_True)
  from middleware_status_of_handler_result
    [where handler = "sendTransaction exampleExt exampleServer", OF p2 q h2]
  have r2: "status (response (middleware exampleExt exampleServer ?req2 Default True
                               (sendTransaction exampleExt exampleServer) exampleState)) = 200"
    by (simp only: s if_False u)
  from r1 r2 show ?thesis ..
qed

text \<open>C5 on the body \<^verbatim>\<open>{tx_as_hex:zz}\<close>.\<close>

theorem sendTransaction_invalid_hex_in_band_witness:
  "status (response (post_sendrawtransaction exampleExt exampleServer
                       (examplePost ''/sendrawtransaction'' ''{tx_as_hex:zz}'') exampleState)) = 200
   \<and> content (response (post_sendrawtransaction exampleExt exampleServer
                          (examplePost ''/sendrawtransaction'' ''{tx_as_hex:zz}'') exampleState))
     = [StartObject, Key ''status'', String ''Failed'',
        Key ''error'', String ''Failed to parse transaction from hex buffer'', EndObject]"
  using sendTransaction_invalid_hex_in_band
    [where srv = exampleServer and st = exampleState,
      OF example_parse_tx(3) [of "''/sendrawtransaction''"] example_tx_as_hex example_fromHex(3)]
  by (elim conjE) (rule conjI)

text \<open>C4 on a transaction the example pool admits and on one it rejects.\<close>

theorem sendTransaction_hash_and_relay_witness:
  "relayCalls (events (post_sendrawtransaction exampleExt exampleServer
                         (examplePost ''/sendrawtransaction'' ''{tx_as_hex:dead}'') exampleState))
     = [RelayTransactions [[0xDE, 0xAD]]]
   \<and> content (response (post_sendrawtransaction exampleExt exampleServer
                          (examplePost ''/sendrawtransaction'' ''{tx_as_hex:dead}'') exampleState))
     = [StartObject, Key ''transactionHash'', String ''adde'',
        Key ''status'', String ''OK'', Key ''error'', String '''', EndObject]
   \<and> relayCalls (events (post_sendrawtransaction exampleExt exampleServer
                           (examplePost ''/sendrawtransaction'' ''{tx_as_hex:beef}'') exampleState))
     = []
   \<and> content (response (post_sendrawtransaction exampleExt exampleServer
                          (examplePost ''/sendrawtransaction'' ''{tx_as_hex:beef}'') exampleState))
     = [StartObject, Key ''transactionHash'', String ''efbe'',
        Key ''status'', String ''Failed'', Key ''error'', String ''Transaction is a double spend'',
        EndObject]
   \<and> status (response (post_sendrawtransaction exampleExt exampleServer
                         (examplePost ''/sendrawtransaction'' ''{tx_as_hex:beef}'') exampleState)) = 200"
proof -
  have e: "relayCalls (events exampleState) = []"
    by (simp add: exampleState_def relayCalls_def)
  have h: "podToHex exampleExt (cn_fast_hash exampleExt [0xDE, 0xAD]) = ''adde''"
    "podToHex exampleExt (cn_fast_hash exampleExt [0xBE, 0xEF]) = ''efbe''"
    by (simp_all add: example_defs)
  from sendTransaction_hash_and_relay
    [OF example_parse_tx(1) [of "''/sendrawtransaction''"] example_tx_as_hex example_fromHex(1)
      example_admission(1)]
  have a: "relayCalls (events (post_sendrawtransaction exampleExt exampleServer
                                (examplePost ''/sendrawtransaction'' ''{tx_as_hex:dead}'') exampleState))
             = [RelayTransactions [[0xDE, 0xAD]]]
           \<and> content (response (post_sendrawtransaction exampleExt exampleServer
                                  (examplePost ''/sendrawtransaction'' ''{tx_as_hex:dead}'') exampleState))
             = [StartObject, Key ''transactionHash'', String ''adde'',
                Key ''status'', String ''OK'', Key ''error'', String '''', EndObject]"
    by (simp add: e h)
  from sendTransaction_hash_and_relay
    [OF example_parse_tx(2) [of "''/sendrawtransaction''"] example_tx_as_hex example_fromHex(2)
      example_admission(2)]
  have b: "relayCalls (events (post_sendrawtransaction exampleExt exampleServer
                                (examplePost ''/sendrawtransaction'' ''{tx_as_hex:beef}'') exampleState))
             = []
           \<and> content (response (post_sendrawtransaction exampleExt exampleServer
                                  (examplePost ''/sendrawtransaction'' ''{tx_as_hex:beef}'') exampleState))
             = [StartObject, Key ''transactionHash'', String ''efbe'',
                Key ''status'', String ''Failed'', Key ''error'', String ''Transaction is a double spend'',
                EndObject]
           \<and> status (response (post_sendrawtransaction exampleExt exampleServer
                                 (examplePost ''/sendrawtransaction'' ''{tx_as_hex:beef}'') exampleState)) = 200"
    by (simp add: e h)
  from a b show ?thesis by blast
qed

text \<open>C10 on the transaction the example pool rejects.\<close>

theorem sendTransaction_hash_before_admission_witness:
  "content (response (snd (sendTransaction exampleExt exampleServer
                             (examplePost ''/sendrawtransaction'' ''{tx_as_hex:beef}'')
                             (EObject [(''tx_as_hex'', EString ''beef'')]) exampleState)))
     = [StartObject, Key ''transactionHash'', String ''efbe'',
        Key ''status'', String ''Failed'', Key ''error'', String ''Transaction is a double spend'',
        EndObject]"
proof -
  have h: "podToHex exampleExt (cn_fast_hash exampleExt [0xBE, 0xEF]) = ''efbe''"
    by (simp add: example_defs)
  from sendTransaction_hash_before_admission
    [where req = "examplePost ''/sendrawtransaction'' ''{tx_as_hex:beef}''",
      OF example_tx_as_hex example_fromHex(2) example_admission(2)]
  show ?thesis
    by (simp add: h)
qed

lemma example_parse_spec:
  "parseJson exampleExt (body (examplePost p ''{outs_count:5,amounts:[100]}''))
     = Some (EObject [(''outs_count'', ENumber 5), (''amounts'', EArray [ENumber 100])])"
  by (simp add: example_defs)

lemma example_shortfall_message:
  "shortfallMessage exampleExt 100 5 3 =
     ''Failed to get enough matching outputs for amount 100 (100 atomic units). ''
     @ ''Requested outputs: 5, found outputs: 3. Further explanation here: ''
     @ ''https://gist.github.com/zpalmtree/80b3e80463225bcfb8f8432043cb594c'' @ endl
     @ ''Note: If you are a public node operator, you can safely ignore this message. ''
     @ ''It is only relevant to the user sending the transaction.''"
  by (simp add: shortfallMessage_def exampleExt_def showNat.simps digitChar_def)

lemma post_getrandom_outs_aborted:
  assumes "parseJson ext (body req) = Some jsonBody"
    and "getUint64FromJSON ext jsonBody ''outs_count'' = Inr n"
    and "getArrayFromJSON ext jsonBody ''amounts'' = Inr amounts"
    and "getRandomOutsLoop ext (m_core srv) n amounts (world st)
           = (Inl (Error CANT_GET_FAKE_OUTPUTS message, statusCode), w, calls)"
  shows "status (response (post_getrandom_outs ext srv req st)) = 400"
    and "content (response (post_getrandom_outs ext srv req st))
           = [StartObject,
              Key ''errorCode'', Uint (errorCodeValue ext CANT_GET_FAKE_OUTPUTS),
              Key ''errorMessage'', String message,
              EndObject]"
proof -
  let ?st = "preamble srv req st"
  have l: "getRandomOutsLoop ext (m_core srv) n amounts (world ?st)
             = (Inl (Error CANT_GET_FAKE_OUTPUTS message, statusCode), w, calls)"
    using assms(4) by (simp add: world_preamble)
  have h: "getRandomOuts ext srv req jsonBody ?st
             = (Returned (Error CANT_GET_FAKE_OUTPUTS message, statusCode),
                ?st\<lparr>world := w, events := events ?st @ calls\<rparr>)"
    using assms(2,3) l by (rule getRandomOuts_aborted)
  have m: "post_getrandom_outs ext srv req st
             = invokeHandler ext (getRandomOuts ext srv) req jsonBody ?st"
    unfolding post_getrandom_outs_def using assms(1) by (rule default_route_invokes)
  show "status (response (post_getrandom_outs ext srv req st)) = 400"
    unfolding m using h by (simp add: invokeHandler_def isError_def Error_def)
  show "content (response (post_getrandom_outs ext srv req st))
          = [StartObject,
             Key ''errorCode'', Uint (errorCodeValue ext CANT_GET_FAKE_OUTPUTS),
             Key ''errorMessage'', String message,
             EndObject]"
    unfolding m using h by (simp add: invokeHandler_def isError_def Error_def content_set_content)
qed

text \<open>
  C1 as stated fails on the example of the specification: \<^verbatim>\<open>amounts = [100]\<close>,
  \<^verbatim>\<open>outs_count = 5\<close>, and a ledger with three outputs of amount 100.  The status of the
  response is 400, not 200.
\<close>

theorem getRandomOuts_shortfall_status_counterexample:
  "length (fst (snd (snd (fst (getRandomOutputs (m_core exampleServer) (world exampleState) 100 5))))) = 3
   \<and> status (response (post_getrandom_outs exampleExt exampleServer
                         (examplePost ''/getrandom_outs'' ''{outs_count:5,amounts:[100]}'')
                         exampleState)) \<noteq> 200"
proof -
  have l: "getRandomOutsLoop exampleExt (m_core exampleServer) 5 [ENumber 100] (world exampleState)
             = (Inl (Error CANT_GET_FAKE_OUTPUTS (shortfallMessage exampleExt 100 5 3), 200),
                world exampleState, [GetRandomOutputs 100 5])"
    by (simp add: Let_def example_number example_rare_amount numeral_3_eq_3)
  have "status (response (post_getrandom_outs exampleExt exampleServer
                            (examplePost ''/getrandom_outs'' ''{outs_count:5,amounts:[100]}'')
                            exampleState)) = 400"
    using example_parse_spec example_outs_count(1) example_outs_count(2) l
    by (rule post_getrandom_outs_aborted(1))
  then show ?thesis
    by (simp add: example_rare_amount)
qed

text \<open>C1, as amended, on the amounts 200, 100 and 300: the shortfall is at the second amount.\<close>

theorem getRandomOuts_shortfall_aborts_witness:
  "status (response (post_getrandom_outs exampleExt exampleServer
                       (examplePost ''/getrandom_outs'' ''{outs_count:5,amounts:[200,100,300]}'')
                       exampleState)) = 400
   \<and> content (response (post_getrandom_outs exampleExt exampleServer
                          (examplePost ''/getrandom_outs'' ''{outs_count:5,amounts:[200,100,300]}'')
                          exampleState))
     = [StartObject,
        Key ''errorCode'', Uint 1,
        Key ''errorMessage'',
        String (''Failed to get enough matching outputs for amount 100 (100 atomic units). ''
                @ ''Requested outputs: 5, found outputs: 3. Further explanation here: ''
                @ ''https://gist.github.com/zpalmtree/80b3e80463225bcfb8f8432043cb594c'' @ endl
                @ ''Note: If you are a public node operator, you can safely ignore this message. ''
                @ ''It is only relevant to the user sending the transaction.''),
        EndObject]"
proof -
  let ?req = "examplePost ''/getrandom_outs'' ''{outs_count:5,amounts:[200,100,300]}''"
  let ?doc = "EObject [(''outs_count'', ENumber 5),
                       (''amounts'', EArray [ENumber 200, ENumber 100, ENumber 300])]"
  have a: "getArrayFromJSON exampleExt ?doc ''amounts''
             = Inr ([ENumber 200] @ ENumber 100 # [ENumber 300])"
    by (simp add: example_outs_count(2))
  have "\<exists>written calls.
          getRandomOutsLoop exampleExt (m_core exampleServer) 5 [ENumber 200] (world exampleState)
            = (Inr written, world exampleState, calls)"
    by (simp add: Let_def example_number example_common_amount)
  then obtain written calls where b:
    "getRandomOutsLoop exampleExt (m_core exampleServer) 5 [ENumber 200] (world exampleState)
       = (Inr written, world exampleState, calls)"
    by (elim exE)
  have g: "getRandomOutputs (m_core exampleServer) (world exampleState)
             (GetUint64 exampleExt (ENumber 100)) (ucast (5 :: uint64_t))
             = ((True, '''', [7, 8, 9], [[1], [2], [3]]), world exampleState)"
    by (simp add: example_number example_rare_amount)
  have f: "length [7, 8, 9 :: uint32_t] < unat (5 :: uint64_t)"
    by simp
  have c: "errorCodeValue exampleExt CANT_GET_FAKE_OUTPUTS = 1"
    by (simp add: example_defs)
  from getRandomOuts_shortfall_aborts
    [where srv = exampleServer and st = exampleState and req = ?req,
      OF example_parse_shortfall example_outs_count(1) a b g f]
  show ?thesis
    by (simp add: c example_number example_shortfall_message numeral_3_eq_3 [symmetric])
qed

text \<open>C9 on \<^verbatim>\<open>outs_count = 65541\<close>: the ledger is asked for five outputs and returns five.\<close>

theorem getRandomOuts_count_truncated_witness:
  "getRandomOuts exampleExt exampleServer
     (examplePost ''/getrandom_outs'' ''{outs_count:65541,amounts:[200]}'')
     (EObject [(''outs_count'', ENumber 65541), (''amounts'', EArray [ENumber 200])])
     exampleState
   = (Returned (Error CANT_GET_FAKE_OUTPUTS (shortfallMessage exampleExt 200 65541 5), 200),
      exampleState\<lparr>world := world exampleState,
                    events := events exampleState @ [GetRandomOutputs 200 5]\<rparr>)"
proof -
  let ?doc = "EObject [(''outs_count'', ENumber 65541), (''amounts'', EArray [ENumber 200])]"
  have n: "(2 :: nat) ^ 16 \<le> unat (65541 :: uint64_t)"
    by simp
  have e: "(ucast (65541 :: uint64_t) :: uint16_t) = 5"
    by simp
  have five: "Suc (Suc (Suc (Suc (Suc 0)))) = 5"
    by simp
  have a: "getArrayFromJSON exampleExt ?doc ''amounts'' = Inr ([] @ ENumber 200 # [])"
    by (simp add: example_outs_count(2))
  have b: "getRandomOutsLoop exampleExt (m_core exampleServer) 65541 [] (world exampleState)
             = (Inr [], world exampleState, [])"
    by simp
  have g: "getRandomOutputs (m_core exampleServer) (world exampleState)
             (GetUint64 exampleExt (ENumber 200)) (ucast (65541 :: uint64_t))
             = ((True, '''', [0, 1, 2, 3, 4], [[0], [1], [2], [3], [4]]), world exampleState)"
    by (simp only: e example_number example_common_amount)
  have f: "length [0, 1, 2, 3, 4 :: uint32_t] = unat (ucast (65541 :: uint64_t) :: uint16_t)"
    by (simp add: e)
  from getRandomOuts_count_truncated
    [where req = "examplePost ''/getrandom_outs'' ''{outs_count:65541,amounts:[200]}''"
       and srv = exampleServer and st = exampleState,
      OF example_outs_count(1) [of 65541 "[ENumber 200]"] n a b g f]
  show ?thesis
    by (simp only: e example_number) (simp add: five example_number)
qed

lemma example_parse_body_fails:
  "parseBody exampleExt (examplePost p ''zz'') True = None"
  "parseBody exampleExt (examplePost p '''') True = None"
  by (simp_all add: parseBody_def example_parse_fails)

lemma example_no_body: "parseBody exampleExt (exampleGet p) False = Some ENull"
  by (simp add: parseBody_def exampleExt_def)

text \<open>
  C3 as stated fails on \<^verbatim>\<open>/sendrawtransaction\<close>.  For the body \<^verbatim>\<open>zz\<close> the error message of
  the response is the logged warning, the body itself and then the parse-failure message;
  for the empty body it is the parse-failure message alone.  Both responses have status 400.
\<close>

theorem parse_failure_message_carries_logged_warning:
  "content (response (post_sendrawtransaction exampleExt exampleServer
                        (examplePost ''/sendrawtransaction'' ''zz'') exampleState))
     = [StartObject, Key ''status'', String ''Failed'',
        Key ''error'',
        String (''Warning: received body is not JSON encoded!'' @ endl
                @ ''Key/value parameters are NOT supported.'' @ endl
                @ ''Body:'' @ endl @ ''zz'' @ ''Failed to parse request body as JSON''),
        EndObject]
   \<and> content (response (post_sendrawtransaction exampleExt exampleServer
                          (examplePost ''/sendrawtransaction'' '''') exampleState))
     = [StartObject, Key ''status'', String ''Failed'',
        Key ''error'', String ''Failed to parse request body as JSON'', EndObject]
   \<and> status (response (post_sendrawtransaction exampleExt exampleServer
                         (examplePost ''/sendrawtransaction'' ''zz'') exampleState)) = 400
   \<and> status (response (post_sendrawtransaction exampleExt exampleServer
                         (examplePost ''/sendrawtransaction'' '''') exampleState)) = 400"
proof -
  have m: "post_sendrawtransaction exampleExt exampleServer (examplePost p b) exampleState
             = parseFailure (examplePost p b) (preamble exampleServer (examplePost p b) exampleState)"
    if "parseBody exampleExt (examplePost p b) True = None" for p b
    unfolding post_sendrawtransaction_def using that by (rule middleware_parse_failure)
  have b: "body (examplePost p b) = b" for p b
    by (simp add: examplePost_def)
  show ?thesis
    by (simp add: m [OF example_parse_body_fails(1)] m [OF example_parse_body_fails(2)]
          parseFailure_def Let_def b log_def content_failRequest status_failRequest)
qed

text \<open>
  C6 as stated fails on a body that does not parse: the body of the response is not the
  object with the keys \<^verbatim>\<open>errorCode\<close> and \<^verbatim>\<open>errorMessage\<close>.
\<close>

theorem pipeline_failure_envelope_counterexample:
  "\<not> isErrorCodeEnvelope
       (content (response (post_sendrawtransaction exampleExt exampleServer
                             (examplePost ''/sendrawtransaction'' '''') exampleState)))"
proof -
  have "post_sendrawtransaction exampleExt exampleServer
          (examplePost ''/sendrawtransaction'' '''') exampleState
        = parseFailure (examplePost ''/sendrawtransaction'' '''')
            (preamble exampleServer (examplePost ''/sendrawtransaction'' '''') exampleState)"
    unfolding post_sendrawtransaction_def
    using example_parse_body_fails(2) by (rule middleware_parse_failure)
  then show ?thesis
    by (simp add: parseFailure_def Let_def examplePost_def content_failRequest isErrorCodeEnvelope_def)
qed

text \<open>
  C6, as amended, on the four failures: a body that does not parse, a route above the
  configured level, a missing field, and an accessor that throws another exception.
\<close>

theorem pipeline_failure_envelope_witness:
  "status (response (middleware exampleExt exampleServer (examplePost ''/sendrawtransaction'' ''zz'')
                       Default True (sendTransaction exampleExt exampleServer) exampleState)) = 400
   \<and> status (response (middleware exampleExt exampleServer (exampleGet ''/info'')
                         BlockExplorerEnabled False (info exampleExt exampleServer) exampleState)) = 403
   \<and> status (response (middleware exampleExt exampleServer
                         (examplePost ''/getrandom_outs'' ''{tx_as_hex:zz}'')
                         Default True (getRandomOuts exampleExt exampleServer) exampleState)) = 400
   \<and> status (response (middleware exampleFaultyExt exampleServer
                         (examplePost ''/sendrawtransaction'' ''{tx_as_hex:zz}'')
                         Default True (sendTransaction exampleFaultyExt exampleServer) exampleState)) = 500
   \<and> content (response (middleware exampleFaultyExt exampleServer
                          (examplePost ''/sendrawtransaction'' ''{tx_as_hex:zz}'')
                          Default True (sendTransaction exampleFaultyExt exampleServer) exampleState))
     = [StartObject, Key ''status'', String ''Failed'',
        Key ''error'', String (''Internal server error: '' @ ''std::bad_alloc''), EndObject]"
proof -
  let ?tx = "examplePost ''/sendrawtransaction'' ''{tx_as_hex:zz}''"
  let ?txdoc = "EObject [(''tx_as_hex'', EString ''zz'')]"
  let ?outs = "examplePost ''/getrandom_outs'' ''{tx_as_hex:zz}''"
  have q: "\<not> rpcModeValue Default > rpcModeValue (m_rpcMode exampleServer)"
    by simp
  have a: "status (response (middleware exampleExt exampleServer (examplePost ''/sendrawtransaction'' ''zz'')
                               Default True (sendTransaction exampleExt exampleServer) exampleState)) = 400"
    using pipeline_failure_envelope
      [where ext = exampleExt and req = "examplePost ''/sendrawtransaction'' ''zz''"
         and bodyRequired = True and handler = "sendTransaction exampleExt exampleServer"
         and routePermissions = Default and srv = exampleServer and st = exampleState]
      example_parse_body_fails(1) [of "''/sendrawtransaction''"]
    by blast
  have "parseBody exampleExt (exampleGet ''/info'') False = Some ENull
          \<and> rpcModeValue BlockExplorerEnabled > rpcModeValue (m_rpcMode exampleServer)"
    by (simp add: example_no_body example_mode)
  then have b: "status (response (middleware exampleExt exampleServer (exampleGet ''/info'')
                         BlockExplorerEnabled False (info exampleExt exampleServer) exampleState)) = 403"
    using pipeline_failure_envelope
      [where ext = exampleExt and req = "exampleGet ''/info''" and jsonBody = ENull
         and bodyRequired = False and handler = "info exampleExt exampleServer"
         and routePermissions = BlockExplorerEnabled and srv = exampleServer and st = exampleState]
    by blast
  have p: "parseBody exampleExt ?outs True = Some ?txdoc" "parseBody exampleExt ?tx True = Some ?txdoc"
    by (simp_all add: parseBody_def example_parse_tx)
  have "fst (getRandomOuts exampleExt exampleServer ?outs ?txdoc (preamble exampleServer ?outs exampleState))
          = Threw (InvalidArgument ''Missing JSON parameter: outs_count'')"
    by (simp add: getRandomOuts_def example_defs)
  then have "getRandomOuts exampleExt exampleServer ?outs ?txdoc (preamble exampleServer ?outs exampleState)
               = (Threw (InvalidArgument ''Missing JSON parameter: outs_count''),
                  snd (getRandomOuts exampleExt exampleServer ?outs ?txdoc
                         (preamble exampleServer ?outs exampleState)))"
    by (simp add: prod_eq_iff)
  with p(1) q have c: "status (response (middleware exampleExt exampleServer ?outs
                         Default True (getRandomOuts exampleExt exampleServer) exampleState)) = 400"
    using pipeline_failure_envelope
      [where ext = exampleExt and req = ?outs and jsonBody = ?txdoc
         and bodyRequired = True and handler = "getRandomOuts exampleExt exampleServer"
         and routePermissions = Default and srv = exampleServer and st = exampleState
         and what = "''Missing JSON parameter: outs_count''"
         and ?st1.0 = "snd (getRandomOuts exampleExt exampleServer ?outs ?txdoc
                         (preamble exampleServer ?outs exampleState))"]
    by blast
  have pf: "parseBody exampleFaultyExt ?tx True = Some ?txdoc"
    by (simp add: parseBody_def exampleFaultyExt_def example_defs)
  have "sendTransaction exampleFaultyExt exampleServer ?tx ?txdoc (preamble exampleServer ?tx exampleState)
          = (Threw (OtherException ''std::bad_alloc''), preamble exampleServer ?tx exampleState)"
    by (simp add: sendTransaction_def exampleFaultyExt_def)
  with pf q have d: "status (response (middleware exampleFaultyExt exampleServer ?tx
                         Default True (sendTransaction exampleFaultyExt exampleServer) exampleState)) = 500
       \<and> content (response (middleware exampleFaultyExt exampleServer ?tx
                          Default True (sendTransaction exampleFaultyExt exampleServer) exampleState))
         = [StartObject, Key ''status'', String ''Failed'',
            Key ''error'', String (''Internal server error: '' @ ''std::bad_alloc''), EndObject]"
    using pipeline_failure_envelope
      [where ext = exampleFaultyExt and req = ?tx and jsonBody = ?txdoc
         and bodyRequired = True and handler = "sendTransaction exampleFaultyExt exampleServer"
         and routePermissions = Default and srv = exampleServer and st = exampleState
         and what = "''std::bad_alloc''" and ?st1.0 = "preamble exampleServer ?tx exampleState"]
    by blast
  from a b c d show ?thesis
    by (intro conjI) (elim conjE, assumption)+
qed


section \<open>Chain information\<close>

lemma valueOfKey_skip_numbers: "valueOfKey k (map Uint64 xs @ ts) = valueOfKey k ts"
  by (induction xs) simp_all

lemma nearestDouble_exact: "n < 2 ^ 53 \<Longrightarrow> nearestDouble n = n"
  by (simp add: nearestDouble_def)

lemma unat_max_one: "unat (max 1 (x :: uint32_t)) = max 1 (unat x)"
  by (simp add: max_def word_le_nat_alt)

lemma unat_widen: "unat (ucast (x :: uint32_t) :: uint64_t) = unat x"
proof -
  have "unat x < 2 ^ 32"
    using unsigned_less [of x, where ?'a = nat] by simp
  then have "unat x < 2 ^ 64"
    by simp
  then show ?thesis
    by (simp add: unsigned_ucast_eq take_bit_nat_eq_self)
qed

lemma unat_successor: "unat ((x :: uint32_t) + 1) = (unat x + 1) mod 2 ^ 32"
  by (simp add: unat_word_ariths)

lemma unat_difference: "unat ((a :: uint64_t) - b) = (unat a + 2 ^ 64 - unat b) mod 2 ^ 64"
proof -
  have a: "unat a < 2 ^ 64" and b: "unat b < 2 ^ 64"
    using unsigned_less [of a, where ?'a = nat] unsigned_less [of b, where ?'a = nat] by simp_all
  show ?thesis
  proof (cases "unat b \<le> unat a")
    case True
    then have "unat a + 2 ^ 64 - unat b = (unat a - unat b) + 2 ^ 64"
      by arith
    then have "(unat a + 2 ^ 64 - unat b) mod 2 ^ 64 = ((unat a - unat b) + 2 ^ 64) mod 2 ^ 64"
      by (rule arg_cong)
    also have "\<dots> = (unat a - unat b) mod 2 ^ 64"
      by (rule mod_add_self2)
    also have "\<dots> = unat a - unat b"
      using a by (intro mod_less) arith
    finally have "(unat a + 2 ^ 64 - unat b) mod 2 ^ 64 = unat a - unat b" .
    moreover have "unat (a - b) = unat a - unat b"
      using True by (simp add: unat_sub_if_size)
    ultimately show ?thesis
      by (rule ssubst [where P = "\<lambda>r. unat (a - b) = r"])
  next
    case False
    then have "unat a + 2 ^ 64 - unat b < 2 ^ 64"
      using b by simp
    then show ?thesis
      using False by (simp add: unat_sub_if_size word_size)
  qed
qed

lemma unat_max_one_pred: "unat (max 1 (x :: uint32_t) - 1) = max 1 (unat x) - 1"
proof -
  have "0 < unat (max 1 x)"
    by (simp add: unat_max_one)
  then have "max 1 x \<noteq> 0"
    using unat_gt_0 by blast
  then show ?thesis
    by (simp add: unat_minus_one unat_max_one)
qed

lemma info_returns: "fst (info ext srv req jsonBody st) = Returned (Error SUCCESS '''', 200)"
  by (simp add: info_def Let_def)

lemma get_info_is_info:
  "get_info ext srv req st =
     (snd (info ext srv req (nullDocument ext) (preamble srv req st)))
       \<lparr>response := (response (snd (info ext srv req (nullDocument ext) (preamble srv req st))))
                      \<lparr>status := 200\<rparr>\<rparr>"
proof -
  have "get_info ext srv req st
          = invokeHandler ext (info ext srv) req (nullDocument ext) (preamble srv req st)"
    unfolding get_info_def by (rule middleware_invokes) (simp_all add: parseBody_def)
  then show ?thesis
    using invokeHandler_success
      [where handler = "info ext srv" and ext = ext, OF info_returns]
    by simp
qed

lemma content_get_info:
  "content (response (get_info ext srv req st))
     = content (response (snd (info ext srv req (nullDocument ext) (preamble srv req st))))"
  by (simp add: get_info_is_info)

lemma info_values:
  "valueOfKey ''height'' (content (response (snd (info ext srv req jsonBody st))))
     = Some (Uint64 (ucast (getTopBlockIndex (m_core srv) (world st) + 1)))"
  "valueOfKey ''network_height'' (content (response (snd (info ext srv req jsonBody st))))
     = Some (Uint64 (ucast (max 1 (getBlockchainHeight (m_syncManager srv) (world st)))))"
  "valueOfKey ''tx_count'' (content (response (snd (info ext srv req jsonBody st))))
     = Some (Uint64 (getBlockchainTransactionCount (m_core srv) (world st)
                     - ucast (getTopBlockIndex (m_core srv) (world st) + 1)))"
  "valueOfKey ''incoming_connections_count'' (content (response (snd (info ext srv req jsonBody st))))
     = Some (Uint64 (get_connections_count (m_p2p srv) (world st)
                     - get_outgoing_connections_count (m_p2p srv) (world st)))"
  "valueOfKey ''last_known_block_index'' (content (response (snd (info ext srv req jsonBody st))))
     = Some (Uint64 (ucast (max 1 (getObservedHeight (m_syncManager srv) (world st)) - 1)))"
  "valueOfKey ''hashrate'' (content (response (snd (info ext srv req jsonBody st))))
     = Some (Uint64 (roundToUint64 (getDifficultyForNextBlock (m_core srv) (world st)
                                    div DIFFICULTY_TARGET ext)))"
  "valueOfKey ''synced'' (content (response (snd (info ext srv req jsonBody st))))
     = Some (Bool ((ucast (getTopBlockIndex (m_core srv) (world st) + 1) :: uint64_t)
                   = ucast (max 1 (getBlockchainHeight (m_syncManager srv) (world st)))))"
  by (simp_all add: info_def Let_def content_set_content valueOfKey_skip_numbers)

lemma widen_eq_iff: "((ucast (x :: uint32_t) :: uint64_t) = ucast (y :: uint32_t)) = (unat x = unat y)"
  by (simp add: word_unat_eq_iff unat_widen)

text \<open>
  C8, as amended.  The handler \<^verbatim>\<open>info\<close> returns success with the status 200 and the route
  answers with 200.  The arithmetic is that of the unsigned machine integers of the source:
  \<^verbatim>\<open>height\<close> is the top block index plus one modulo \<^verbatim>\<open>2^32\<close>; \<^verbatim>\<open>network_height\<close> is the
  maximum of 1 and the height of the synchronisation manager; \<^verbatim>\<open>tx_count\<close> and
  \<^verbatim>\<open>incoming_connections_count\<close> are the differences modulo \<^verbatim>\<open>2^64\<close>;
  \<^verbatim>\<open>last_known_block_index\<close> is the maximum of 1 and the observed height, minus one; \<^verbatim>\<open>synced\<close>
  tells whether \<^verbatim>\<open>height\<close> equals \<^verbatim>\<open>network_height\<close>.  \<^verbatim>\<open>hashrate\<close> is the quotient of the
  difficulty by the target block time, rounded down, after its passage through a \<^verbatim>\<open>double\<close>:
  it is the quotient itself when the quotient is below \<^verbatim>\<open>2^53\<close>.  The target block time is
  not zero.
\<close>

theorem info_fields:
  assumes "DIFFICULTY_TARGET ext \<noteq> 0"
  shows "fst (info ext srv req (nullDocument ext) (preamble srv req st))
           = Returned (Error SUCCESS '''', 200)
         \<and> status (response (get_info ext srv req st)) = 200
         \<and> numberOfKey ''height'' (content (response (get_info ext srv req st)))
           = Some ((unat (getTopBlockIndex (m_core srv) (world st)) + 1) mod 2 ^ 32)
         \<and> numberOfKey ''network_height'' (content (response (get_info ext srv req st)))
           = Some (max 1 (unat (getBlockchainHeight (m_syncManager srv) (world st))))
         \<and> numberOfKey ''tx_count'' (content (response (get_info ext srv req st)))
           = Some ((unat (getBlockchainTransactionCount (m_core srv) (world st)) + 2 ^ 64
                    - (unat (getTopBlockIndex (m_core srv) (world st)) + 1) mod 2 ^ 32) mod 2 ^ 64)
         \<and> numberOfKey ''incoming_connections_count'' (content (response (get_info ext srv req st)))
           = Some ((unat (get_connections_count (m_p2p srv) (world st)) + 2 ^ 64
                    - unat (get_outgoing_connections_count (m_p2p srv) (world st))) mod 2 ^ 64)
         \<and> numberOfKey ''last_known_block_index'' (content (response (get_info ext srv req st)))
           = Some (max 1 (unat (getObservedHeight (m_syncManager srv) (world st))) - 1)
         \<and> numberOfKey ''hashrate'' (content (response (get_info ext srv req st)))
           = Some (nearestDouble (unat (getDifficultyForNextBlock (m_core srv) (world st))
                                  div unat (DIFFICULTY_TARGET ext)) mod 2 ^ 64)
         \<and> (unat (getDifficultyForNextBlock (m_core srv) (world st)) div unat (DIFFICULTY_TARGET ext)
              < 2 ^ 53 \<longrightarrow>
            numberOfKey ''hashrate'' (content (response (get_info ext srv req st)))
              = Some (unat (getDifficultyForNextBlock (m_core srv) (world st))
                      div unat (DIFFICULTY_TARGET ext)))
         \<and> valueOfKey ''synced'' (content (response (get_info ext srv req st)))
           = Some (Bool ((unat (getTopBlockIndex (m_core srv) (world st)) + 1) mod 2 ^ 32
                         = max 1 (unat (getBlockchainHeight (m_syncManager srv) (world st)))))"
proof -
  let ?body = "content (response (get_info ext srv req st))"
  let ?q = "unat (getDifficultyForNextBlock (m_core srv) (world st)) div unat (DIFFICULTY_TARGET ext)"
  have r: "fst (info ext srv req (nullDocument ext) (preamble srv req st))
             = Returned (Error SUCCESS '''', 200)"
    by (rule info_returns)
  have s: "status (response (get_info ext srv req st)) = 200"
    by (simp add: get_info_is_info)
  note v = info_values
    [where ext = ext and srv = srv and req = req and jsonBody = "nullDocument ext"
       and st = "preamble srv req st", folded content_get_info, unfolded world_preamble]
  have height: "numberOfKey ''height'' ?body
                  = Some ((unat (getTopBlockIndex (m_core srv) (world st)) + 1) mod 2 ^ 32)"
    by (simp add: numberOfKey_def v(1) unat_widen unat_successor)
  have network: "numberOfKey ''network_height'' ?body
                   = Some (max 1 (unat (getBlockchainHeight (m_syncManager srv) (world st))))"
    by (simp add: numberOfKey_def v(2) unat_widen unat_max_one)
  have tx: "numberOfKey ''tx_count'' ?body
              = Some ((unat (getBlockchainTransactionCount (m_core srv) (world st)) + 2 ^ 64
                       - (unat (getTopBlockIndex (m_core srv) (world st)) + 1) mod 2 ^ 32) mod 2 ^ 64)"
    by (simp only: numberOfKey_def v(3) option.case JsonEvent.case unat_difference unat_widen
          unat_successor)
  have incoming: "numberOfKey ''incoming_connections_count'' ?body
                    = Some ((unat (get_connections_count (m_p2p srv) (world st)) + 2 ^ 64
                             - unat (get_outgoing_connections_count (m_p2p srv) (world st))) mod 2 ^ 64)"
    by (simp only: numberOfKey_def v(4) option.case JsonEvent.case unat_difference)
  have last: "numberOfKey ''last_known_block_index'' ?body
                = Some (max 1 (unat (getObservedHeight (m_syncManager srv) (world st))) - 1)"
    by (simp only: numberOfKey_def v(5) option.case JsonEvent.case unat_widen unat_max_one_pred)
  have hashrate: "numberOfKey ''hashrate'' ?body = Some (nearestDouble ?q mod 2 ^ 64)"
    by (simp add: numberOfKey_def v(6) roundToUint64_def unat_div unat_of_nat)
  have exact: "?q < 2 ^ 53 \<longrightarrow> numberOfKey ''hashrate'' ?body = Some ?q"
  proof
    assume q: "?q < 2 ^ 53"
    then have "nearestDouble ?q = ?q"
      by (rule nearestDouble_exact)
    moreover have "?q < 2 ^ 64"
      using q by simp
    ultimately show "numberOfKey ''hashrate'' ?body = Some ?q"
      by (simp add: hashrate)
  qed
  have synced: "valueOfKey ''synced'' ?body
                  = Some (Bool ((unat (getTopBlockIndex (m_core srv) (world st)) + 1) mod 2 ^ 32
                                = max 1 (unat (getBlockchainHeight (m_syncManager srv) (world st)))))"
    by (simp only: v(7) widen_eq_iff unat_successor unat_max_one)
  from r s height network tx incoming last hashrate exact synced show ?thesis
    by (intro conjI)
qed

lemma example_chain:
  "unat (getTopBlockIndex (m_core exampleServer) w) = 99"
  "unat (getBlockchainHeight (m_syncManager exampleServer) w) = 100"
  "unat (getObservedHeight (m_syncManager exampleServer) w) = 100"
  "unat (getBlockchainTransactionCount (m_core exampleServer) w) = 250"
  "unat (get_connections_count (m_p2p exampleServer) w) = 12"
  "unat (get_outgoing_connections_count (m_p2p exampleServer) w) = 8"
  "unat (DIFFICULTY_TARGET exampleExt) = 30"
  by (simp_all add: exampleServer_def exampleCore_def exampleExt_def)

lemma example_difficulty:
  "unat (getDifficultyForNextBlock (m_core exampleServer) (world exampleState)) = 3000"
  "unat (getDifficultyForNextBlock (m_core exampleServer) (world exampleStateHighDifficulty))
     = 270215977642229790"
  by (simp_all add: exampleServer_def exampleCore_def exampleState_def exampleStateHighDifficulty_def)

lemma example_target: "DIFFICULTY_TARGET exampleExt \<noteq> 0"
  by (simp add: exampleExt_def)

text \<open>
  C8 as stated fails for a difficulty of 270215977642229790 and a target block time of 30:
  the quotient is \<^verbatim>\<open>2^53 + 1\<close>, and the reported \<^verbatim>\<open>hashrate\<close> is \<^verbatim>\<open>2^53\<close>.
\<close>

theorem info_hashrate_counterexample:
  "unat (getDifficultyForNextBlock (m_core exampleServer) (world exampleStateHighDifficulty))
     div unat (DIFFICULTY_TARGET exampleExt) = 9007199254740993
   \<and> numberOfKey ''hashrate''
       (content (response (get_info exampleExt exampleServer (exampleGet ''/info'')
                             exampleStateHighDifficulty)))
     = Some 9007199254740992"
proof -
  have q: "unat (getDifficultyForNextBlock (m_core exampleServer) (world exampleStateHighDifficulty))
             div unat (DIFFICULTY_TARGET exampleExt) = 9007199254740993"
    by (simp add: example_chain example_difficulty)
  have b: "bitlen 9007199254740993 = 54"
    by (simp add: bitlen.simps)
  have n: "nearestDouble 9007199254740993 = 9007199254740992"
    by (simp add: nearestDouble_def b Let_def)
  have d: "getDifficultyForNextBlock (m_core exampleServer) (world exampleStateHighDifficulty)
             div DIFFICULTY_TARGET exampleExt = 9007199254740993"
    by (simp add: exampleServer_def exampleCore_def exampleStateHighDifficulty_def exampleExt_def)
  have "numberOfKey ''hashrate''
          (content (response (get_info exampleExt exampleServer (exampleGet ''/info'')
                                exampleStateHighDifficulty)))
        = Some (unat (roundToUint64 9007199254740993))"
    by (simp add: numberOfKey_def content_get_info info_values(6) world_preamble d)
  also have "roundToUint64 9007199254740993 = 9007199254740992"
    by (simp add: roundToUint64_def n)
  finally have "numberOfKey ''hashrate''
                  (content (response (get_info exampleExt exampleServer (exampleGet ''/info'')
                                        exampleStateHighDifficulty)))
                = Some 9007199254740992"
    by simp
  with q show ?thesis ..
qed

text \<open>C8, as amended, on the example chain: top block index 99, difficulty 3000, target 30.\<close>

theorem info_fields_witness:
  "status (response (get_info exampleExt exampleServer (exampleGet ''/info'') exampleState)) = 200
   \<and> numberOfKey ''height''
       (content (response (get_info exampleExt exampleServer (exampleGet ''/info'') exampleState)))
     = Some 100
   \<and> numberOfKey ''network_height''
       (content (response (get_info exampleExt exampleServer (exampleGet ''/info'') exampleState)))
     = Some 100
   \<and> numberOfKey ''tx_count''
       (content (response (get_info exampleExt exampleServer (exampleGet ''/info'') exampleState)))
     = Some 150
   \<and> numberOfKey ''incoming_connections_count''
       (content (response (get_info exampleExt exampleServer (exampleGet ''/info'') exampleState)))
     = Some 4
   \<and> numberOfKey ''last_known_block_index''
       (content (response (get_info exampleExt exampleServer (exampleGet ''/info'') exampleState)))
     = Some 99
   \<and> numberOfKey ''hashrate''
       (content (response (get_info exampleExt exampleServer (exampleGet ''/info'') exampleState)))
     = Some 100
   \<and> valueOfKey ''synced''
       (content (response (get_info exampleExt exampleServer (exampleGet ''/info'') exampleState)))
     = Some (Bool True)"
  using info_fields
    [where ext = exampleExt and srv = exampleServer and req = "exampleGet ''/info''"
       and st = exampleState, OF example_target]
  by (simp add: example_chain example_difficulty nearestDouble_def)

end
